theory Spec2Isabelle
  imports Complex_Main "HOL-Library.Word" "HOL-Library.Multiset"
begin

section \<open>The Windows OpenGL compositor (compositor_opengl.cc)\<close>

text \<open>
  A shallow embedding of \<^verbatim>\<open>shell/platform/windows/compositor_opengl.cc\<close>.
  The compositor talks to three collaborators whose code is in other files: the table of
  resolved GLES entry points (\<^verbatim>\<open>impeller::ProcTableGLES\<close>) with its description of the
  driver, the engine with its view and surface manager, and the embedder API's structs.
  Their parts are written down here as far as the compositor uses them.
\<close>

subsection \<open>OpenGL enumerants\<close>

text \<open>
  \<^verbatim>\<open>GLenum\<close> and \<^verbatim>\<open>uint32_t\<close> values are 32-bit words; the values are those of the
  Khronos headers \<^verbatim>\<open>GLES3/gl3.h\<close> and \<^verbatim>\<open>GLES2/gl2ext.h\<close>. Object names
  (\<^verbatim>\<open>GLuint\<close>) are natural numbers: the compositor stores and passes them on and never
  computes with them. \<^verbatim>\<open>GLint\<close> and \<^verbatim>\<open>GLsizei\<close> are the 32-bit signed \<^verbatim>\<open>int\<close>, read
  with \<open>sint\<close>; \<^verbatim>\<open>size_t\<close> is the 64-bit unsigned integer of the Windows target, read
  with \<open>unat\<close>.
\<close>

type_synonym GLenum = "32 word"
type_synonym GLuint = nat
type_synonym GLint = "32 word"
type_synonym GLsizei = "32 word"
type_synonym size_t = "64 word"

definition GL_RGBA8 :: GLenum where "GL_RGBA8 = 0x8058"
definition GL_BGRA8_EXT :: GLenum where "GL_BGRA8_EXT = 0x93A1"
definition GL_RGBA :: GLenum where "GL_RGBA = 0x1908"
definition GL_UNSIGNED_BYTE :: GLenum where "GL_UNSIGNED_BYTE = 0x1401"
definition GL_TEXTURE_2D :: GLenum where "GL_TEXTURE_2D = 0x0DE1"
definition GL_TEXTURE_MAG_FILTER :: GLenum where "GL_TEXTURE_MAG_FILTER = 0x2800"
definition GL_TEXTURE_MIN_FILTER :: GLenum where "GL_TEXTURE_MIN_FILTER = 0x2801"
definition GL_TEXTURE_WRAP_S :: GLenum where "GL_TEXTURE_WRAP_S = 0x2802"
definition GL_TEXTURE_WRAP_T :: GLenum where "GL_TEXTURE_WRAP_T = 0x2803"
definition GL_NEAREST :: GLenum where "GL_NEAREST = 0x2600"
definition GL_LINEAR :: GLenum where "GL_LINEAR = 0x2601"
definition GL_NEAREST_MIPMAP_LINEAR :: GLenum where "GL_NEAREST_MIPMAP_LINEAR = 0x2702"
definition GL_REPEAT :: GLenum where "GL_REPEAT = 0x2901"
definition GL_CLAMP_TO_EDGE :: GLenum where "GL_CLAMP_TO_EDGE = 0x812F"
definition GL_FRAMEBUFFER :: GLenum where "GL_FRAMEBUFFER = 0x8D40"
definition GL_READ_FRAMEBUFFER :: GLenum where "GL_READ_FRAMEBUFFER = 0x8CA8"
definition GL_DRAW_FRAMEBUFFER :: GLenum where "GL_DRAW_FRAMEBUFFER = 0x8CA9"
definition GL_COLOR_ATTACHMENT0_EXT :: GLenum where "GL_COLOR_ATTACHMENT0_EXT = 0x8CE0"
definition GL_COLOR_BUFFER_BIT :: GLenum where "GL_COLOR_BUFFER_BIT = 0x4000"

subsection \<open>Narrowing a double\<close>

text \<open>
  The sizes the embedder passes are of type \<^verbatim>\<open>double\<close>. A finite double is a real number;
  not-a-number and the infinities are left out. Where the compositor passes a size to a
  parameter of integer type, C++ converts it: the fraction is dropped (truncation toward
  zero), and the result is the integer so obtained when the target type can hold it. When
  it cannot, C++ leaves the conversion undefined; the model takes what the conversion
  instructions of x86-64 deliver: the value \<open>0x80000000\<close> (that is \<open>-2147483648\<close>) for the
  32-bit \<^verbatim>\<open>int\<close>, and for the 64-bit \<^verbatim>\<open>size_t\<close> the low 64 bits of a truncated value
  of at least \<open>-2^63\<close> and \<open>0x8000000000000000\<close> beyond.
\<close>

definition truncated :: "real \<Rightarrow> int" where
  "truncated x = (if 0 \<le> x then \<lfloor>x\<rfloor> else \<lceil>x\<rceil>)"

definition to_int :: "real \<Rightarrow> 32 word" where
  "to_int x =
     (if - (2 ^ 31) \<le> truncated x \<and> truncated x < 2 ^ 31 then word_of_int (truncated x)
      else 0x80000000)"

definition to_size_t :: "real \<Rightarrow> size_t" where
  "to_size_t x =
     (if - (2 ^ 63) \<le> truncated x \<and> truncated x < 2 ^ 64 then word_of_int (truncated x)
      else 0x8000000000000000)"

subsection \<open>Capability data\<close>

text \<open>
  Modelled from the spec: \<^verbatim>\<open>impeller::Version\<close> and \<^verbatim>\<open>impeller::DescriptionGLES\<close>
  are declared outside this file. The spec gives the capability queries as
  \<^verbatim>\<open>HasExtension(name) -> bool\<close> over a set of supported extension names and
  \<^verbatim>\<open>GetVersion() -> (major, minor)\<close> with an \<^verbatim>\<open>IsAtLeast\<close> comparison.
\<close>

record Version =
  major_version :: nat
  minor_version :: nat

definition IsAtLeast :: "Version \<Rightarrow> Version \<Rightarrow> bool" where
  "IsAtLeast v other =
     (major_version other < major_version v \<or>
      (major_version v = major_version other \<and> minor_version other \<le> minor_version v))"

record DescriptionGLES =
  extensions :: "string set"
  gl_version :: Version

definition HasExtension :: "DescriptionGLES \<Rightarrow> string \<Rightarrow> bool" where
  "HasExtension description ext = (ext \<in> extensions description)"

definition GetGlVersion :: "DescriptionGLES \<Rightarrow> Version" where
  "GetGlVersion description = gl_version description"

subsection \<open>Format negotiation\<close>

text \<open>\<^verbatim>\<open>GetSupportedTextureFormat\<close>, lines 22 to 31.\<close>

definition GetSupportedTextureFormat :: "DescriptionGLES \<Rightarrow> GLenum" where
  "GetSupportedTextureFormat description =
     (if HasExtension description ''GL_EXT_texture_format_BGRA8888'' then GL_BGRA8_EXT
      else if HasExtension description ''GL_APPLE_texture_format_BGRA8888'' \<and>
              IsAtLeast (GetGlVersion description) \<lparr>major_version = 3, minor_version = 0\<rparr>
      then GL_BGRA8_EXT
      else GL_RGBA8)"

subsection \<open>The GL driver\<close>

text \<open>
  Modelled from the spec: the entry points reached through \<^verbatim>\<open>gl_->\<close> belong to the
  driver. The spec speaks of live GPU objects (textures and framebuffer containers), of
  binding them, of a texture's sampling parameters and backing storage, and of a
  container's colour attachment. The state below holds exactly that, with the meaning
  OpenGL ES gives the calls the compositor issues. Pixel contents are not modelled.
\<close>

record tex_image =
  internalformat :: GLenum
  image_width :: nat
  image_height :: nat
  border :: nat
  pixel_format :: GLenum
  pixel_type :: GLenum

record texture_object =
  min_filter :: GLenum
  mag_filter :: GLenum
  wrap_s :: GLenum
  wrap_t :: GLenum
  images :: "nat \<rightharpoonup> tex_image"

definition default_texture :: texture_object where
  "default_texture =
     \<lparr>min_filter = GL_NEAREST_MIPMAP_LINEAR, mag_filter = GL_LINEAR,
      wrap_s = GL_REPEAT, wrap_t = GL_REPEAT, images = Map.empty\<rparr>"

record gl_state =
  textures :: "GLuint list"
  framebuffers :: "GLuint list"
  texture_objects :: "GLuint \<Rightarrow> texture_object"
  color_attachment0 :: "GLuint \<Rightarrow> GLuint"
  texture_binding_2d :: GLuint
  read_framebuffer_binding :: GLuint
  draw_framebuffer_binding :: GLuint

text \<open>
  The calls the compositor makes, with their arguments. \<^verbatim>\<open>GenTextures(1, &id)\<close> and
  \<^verbatim>\<open>GenFramebuffers(1, &id)\<close> carry the one name the driver hands back;
  \<^verbatim>\<open>DeleteFramebuffers(1, &id)\<close> and \<^verbatim>\<open>DeleteTextures(1, &id)\<close> the one name
  passed in. \<^verbatim>\<open>TexImage2D\<close> is always called with a null data pointer. The driver
  refuses a \<^verbatim>\<open>TexImage2D\<close> call with a negative width or height (\<^verbatim>\<open>GL_INVALID_VALUE\<close>)
  and leaves its state as it was.
\<close>

datatype gl_call =
    GenTextures GLuint
  | GenFramebuffers GLuint
  | BindFramebuffer GLenum GLuint
  | BindTexture GLenum GLuint
  | TexParameteri GLenum GLenum GLenum
  | TexImage2D GLenum nat GLenum GLsizei GLsizei nat GLenum GLenum
  | FramebufferTexture2D GLenum GLenum GLenum GLuint nat
  | DeleteFramebuffers GLuint
  | DeleteTextures GLuint
  | BlitFramebuffer GLint GLint GLint GLint GLint GLint GLint GLint GLenum GLenum

text \<open>A name that is not in use and is not the reserved name 0.\<close>

definition unused_name :: "GLuint list \<Rightarrow> GLuint" where
  "unused_name names = Suc (fold max names 0)"

definition set_parameter :: "GLenum \<Rightarrow> GLenum \<Rightarrow> texture_object \<Rightarrow> texture_object" where
  "set_parameter pname param t =
     (if pname = GL_TEXTURE_MIN_FILTER then t\<lparr>min_filter := param\<rparr>
      else if pname = GL_TEXTURE_MAG_FILTER then t\<lparr>mag_filter := param\<rparr>
      else if pname = GL_TEXTURE_WRAP_S then t\<lparr>wrap_s := param\<rparr>
      else if pname = GL_TEXTURE_WRAP_T then t\<lparr>wrap_t := param\<rparr>
      else t)"

fun gl_exec :: "gl_call \<Rightarrow> gl_state \<Rightarrow> gl_state" where
  "gl_exec (GenTextures n) g =
     g\<lparr>textures := textures g @ [n],
       texture_objects := (texture_objects g)(n := default_texture)\<rparr>"
| "gl_exec (GenFramebuffers n) g =
     g\<lparr>framebuffers := framebuffers g @ [n],
       color_attachment0 := (color_attachment0 g)(n := 0)\<rparr>"
| "gl_exec (BindFramebuffer target fb) g =
     (if target = GL_FRAMEBUFFER
      then g\<lparr>read_framebuffer_binding := fb, draw_framebuffer_binding := fb\<rparr>
      else if target = GL_READ_FRAMEBUFFER then g\<lparr>read_framebuffer_binding := fb\<rparr>
      else if target = GL_DRAW_FRAMEBUFFER then g\<lparr>draw_framebuffer_binding := fb\<rparr>
      else g)"
| "gl_exec (BindTexture target t) g =
     (if target = GL_TEXTURE_2D then g\<lparr>texture_binding_2d := t\<rparr> else g)"
| "gl_exec (TexParameteri target pname param) g =
     (if target = GL_TEXTURE_2D
      then g\<lparr>texture_objects := (texture_objects g)
               (texture_binding_2d g :=
                  set_parameter pname param (texture_objects g (texture_binding_2d g)))\<rparr>
      else g)"
| "gl_exec (TexImage2D target level ifmt w h b fmt ty) g =
     (if target = GL_TEXTURE_2D \<and> 0 \<le> sint w \<and> 0 \<le> sint h
      then let t = texture_objects g (texture_binding_2d g) in
           g\<lparr>texture_objects := (texture_objects g)
               (texture_binding_2d g :=
                  t\<lparr>images := (images t)(level \<mapsto>
                       \<lparr>internalformat = ifmt, image_width = unat w, image_height = unat h,
                        border = b, pixel_format = fmt, pixel_type = ty\<rparr>)\<rparr>)\<rparr>
      else g)"
| "gl_exec (FramebufferTexture2D target attachment textarget t level) g =
     (if (target = GL_FRAMEBUFFER \<or> target = GL_DRAW_FRAMEBUFFER) \<and>
         attachment = GL_COLOR_ATTACHMENT0_EXT
      then g\<lparr>color_attachment0 := (color_attachment0 g)(draw_framebuffer_binding g := t)\<rparr>
      else if target = GL_READ_FRAMEBUFFER \<and> attachment = GL_COLOR_ATTACHMENT0_EXT
      then g\<lparr>color_attachment0 := (color_attachment0 g)(read_framebuffer_binding g := t)\<rparr>
      else g)"
| "gl_exec (DeleteFramebuffers fb) g =
     g\<lparr>framebuffers := removeAll fb (framebuffers g),
       read_framebuffer_binding :=
         (if read_framebuffer_binding g = fb then 0 else read_framebuffer_binding g),
       draw_framebuffer_binding :=
         (if draw_framebuffer_binding g = fb then 0 else draw_framebuffer_binding g)\<rparr>"
| "gl_exec (DeleteTextures t) g =
     g\<lparr>textures := removeAll t (textures g),
       texture_binding_2d := (if texture_binding_2d g = t then 0 else texture_binding_2d g)\<rparr>"
| "gl_exec (BlitFramebuffer sx0 sy0 sx1 sy1 dx0 dy0 dx1 dy1 bits flt) g = g"

subsection \<open>Embedder structs\<close>

text \<open>
  Modelled from the spec: the structs of the embedder API are declared outside this file.
  The spec gives the boundary shapes: a creation input \<^verbatim>\<open>{ width, height }\<close>, a descriptor
  with kind, target mode, id, declared format
  and user data (its destruction hook does nothing and is left out), and a layer with kind,
  content descriptor and size. A tagged union is a record with its tag and the member the
  compositor reads; \<^verbatim>\<open>user_data\<close> is the address of the store's metadata. The spec's
  data model speaks of sizes as positive integers; the fields of \<^verbatim>\<open>FlutterSize\<close> are
  doubles in the embedder API, and they are doubles here: any real number can be passed.
\<close>

record FlutterSize =
  width :: real
  height :: real

record FlutterBackingStoreConfig =
  config_size :: FlutterSize

datatype FlutterBackingStoreType =
    kFlutterBackingStoreTypeOpenGL
  | kFlutterBackingStoreTypeSoftware
  | kFlutterBackingStoreTypeMetal
  | kFlutterBackingStoreTypeVulkan

datatype FlutterOpenGLTargetType =
    kFlutterOpenGLTargetTypeTexture
  | kFlutterOpenGLTargetTypeFramebuffer

record FlutterOpenGLFramebuffer =
  target :: GLenum
  name :: GLuint
  user_data :: nat

record FlutterOpenGLBackingStore =
  target_type :: FlutterOpenGLTargetType
  framebuffer :: FlutterOpenGLFramebuffer

record FlutterBackingStore =
  store_type :: FlutterBackingStoreType
  open_gl :: FlutterOpenGLBackingStore

datatype FlutterLayerContentType =
    kFlutterLayerContentTypeBackingStore
  | kFlutterLayerContentTypePlatformView

record FlutterLayer =
  layer_type :: FlutterLayerContentType
  backing_store :: FlutterBackingStore
  layer_size :: FlutterSize

subsection \<open>The compositor and its surroundings\<close>

text \<open>The metadata for an OpenGL framebuffer backing store (lines 15 to 18).\<close>

record FramebufferBackingStore =
  framebuffer_id :: GLuint
  texture_id :: GLuint

text \<open>
  Modelled from the spec: the function table built from the resolver passes or fails a
  validity check and answers the capability queries.
\<close>

record ProcTableGLES =
  IsValid :: bool
  GetDescription :: DescriptionGLES

text \<open>
  Modelled from the spec: the view hands out a destination render target for a size and
  swaps the visible drawable; the context manager makes the context current. What the
  collaborators answer during one call of the compositor is the call's environment:
  \<^verbatim>\<open>engine_->surface_manager()->MakeCurrent()\<close>, the table
  \<^verbatim>\<open>ProcTableGLES(resolver_)\<close> builds, and \<^verbatim>\<open>engine_->view()\<close> (absent when null).
\<close>

record FlutterWindowsView =
  GetFrameBufferId :: "size_t \<Rightarrow> size_t \<Rightarrow> GLuint"
  SwapBuffers :: bool

record environment =
  MakeCurrent :: bool
  resolved :: ProcTableGLES
  view :: "FlutterWindowsView option"

text \<open>What the compositor asks of its collaborators, in order.\<close>

datatype event =
    MakeCurrent_called
  | GetFrameBufferId_called size_t size_t
  | SwapBuffers_called
  | GL gl_call

text \<open>
  The compositor's fields \<^verbatim>\<open>is_initialized_\<close>, \<^verbatim>\<open>gl_\<close> (absent when null) and
  \<^verbatim>\<open>format_\<close>, named here \<open>is_initialized\<close>, \<open>gl_table\<close> and \<open>format\<close>; the
  driver's state; the metadata objects that are alive on the C++ heap, by address; and the
  calls made so far.
\<close>

record world =
  is_initialized :: bool
  gl_table :: "ProcTableGLES option"
  format :: GLenum
  gpu :: gl_state
  heap :: "(nat \<times> FramebufferBackingStore) list"
  calls :: "event list"

text \<open>
  \<^verbatim>\<open>FML_DCHECK\<close> is declared outside this file, and what it does depends on the build,
  which is a parameter of every operation. In a build with debug checks a false condition
  stops the program: the fatal assertion the spec speaks of. In a build with
  \<^verbatim>\<open>NDEBUG\<close> the macro expands to nothing, the condition is not looked at and the code
  goes on. \<open>FML_DCHECK b c\<close> says that the check of \<open>c\<close> lets the build \<open>b\<close> pass.
\<close>

datatype build = debug_checks | NDEBUG

definition FML_DCHECK :: "build \<Rightarrow> bool \<Rightarrow> bool" where
  "FML_DCHECK b condition = (b = NDEBUG \<or> condition)"

text \<open>
  The other ways a call ends without returning are a call through the null \<^verbatim>\<open>gl_\<close>, a
  use of metadata that is not alive, and a read of \<^verbatim>\<open>layers[0]\<close> in an empty array. A
  call that ends so yields the reason and the world as it was at that moment.
\<close>

datatype fatal = FML_DCHECK_failed | null_gl | dangling_user_data | layers_out_of_bounds

definition gl :: "gl_call \<Rightarrow> world \<Rightarrow> world" where
  "gl c w = w\<lparr>gpu := gl_exec c (gpu w), calls := calls w @ [GL c]\<rparr>"

definition called :: "event \<Rightarrow> world \<Rightarrow> world" where
  "called e w = w\<lparr>calls := calls w @ [e]\<rparr>"

text \<open>\<^verbatim>\<open>CompositorOpenGL::Initialize\<close>, lines 136 to 152.\<close>

definition Initialize ::
  "build \<Rightarrow> world \<Rightarrow> environment \<Rightarrow> fatal \<times> world + bool \<times> world" where
  "Initialize b w env =
     (if \<not> FML_DCHECK b (\<not> is_initialized w) then Inl (FML_DCHECK_failed, w)
      else
        let w1 = called MakeCurrent_called w in
        if \<not> MakeCurrent env then Inr (False, w1)
        else
          let w2 = w1\<lparr>gl_table := Some (resolved env)\<rparr> in
          if \<not> IsValid (resolved env) then Inr (False, w2\<lparr>gl_table := None\<rparr>)
          else
            Inr (True,
              w2\<lparr>format := GetSupportedTextureFormat (GetDescription (resolved env)),
                 is_initialized := True\<rparr>))"

text \<open>
  \<^verbatim>\<open>CompositorOpenGL::CreateBackingStore\<close>, lines 46 to 74: what follows the
  initialization check. The metadata object made by \<^verbatim>\<open>make_unique\<close> is local until
  \<^verbatim>\<open>store.release()\<close> hands its address to the descriptor; it enters the heap there,
  at an address no live object has.
\<close>

definition allocate ::
  "world \<Rightarrow> FlutterBackingStoreConfig \<Rightarrow> FlutterBackingStore
     \<Rightarrow> fatal \<times> world + bool \<times> FlutterBackingStore \<times> world" where
  "allocate w config result =
     (case gl_table w of
        None \<Rightarrow> Inl (null_gl, w)
      | Some table \<Rightarrow>
          let texture = unused_name (textures (gpu w));
              w = gl (GenTextures texture) w;
              fb = unused_name (framebuffers (gpu w));
              w = gl (GenFramebuffers fb) w;
              store = \<lparr>framebuffer_id = fb, texture_id = texture\<rparr>;
              w = gl (BindFramebuffer GL_FRAMEBUFFER (framebuffer_id store)) w;
              w = gl (BindTexture GL_TEXTURE_2D (texture_id store)) w;
              w = gl (TexParameteri GL_TEXTURE_2D GL_TEXTURE_MIN_FILTER GL_NEAREST) w;
              w = gl (TexParameteri GL_TEXTURE_2D GL_TEXTURE_MAG_FILTER GL_NEAREST) w;
              w = gl (TexParameteri GL_TEXTURE_2D GL_TEXTURE_WRAP_S GL_CLAMP_TO_EDGE) w;
              w = gl (TexParameteri GL_TEXTURE_2D GL_TEXTURE_WRAP_T GL_CLAMP_TO_EDGE) w;
              w = gl (TexImage2D GL_TEXTURE_2D 0 GL_RGBA8 (to_int (width (config_size config)))
                        (to_int (height (config_size config))) 0 GL_RGBA GL_UNSIGNED_BYTE) w;
              w = gl (BindTexture GL_TEXTURE_2D 0) w;
              w = gl (FramebufferTexture2D GL_FRAMEBUFFER GL_COLOR_ATTACHMENT0_EXT
                        GL_TEXTURE_2D (texture_id store) 0) w;
              address = unused_name (map fst (heap w));
              w = w\<lparr>heap := heap w @ [(address, store)]\<rparr>
          in Inr (True,
               result\<lparr>store_type := kFlutterBackingStoreTypeOpenGL,
                 open_gl := \<lparr>target_type = kFlutterOpenGLTargetTypeFramebuffer,
                   framebuffer = \<lparr>target = format w, name = framebuffer_id store,
                     user_data = address\<rparr>\<rparr>\<rparr>,
               w))"

text \<open>\<^verbatim>\<open>CompositorOpenGL::CreateBackingStore\<close>, lines 39 to 75.\<close>

definition CreateBackingStore ::
  "build \<Rightarrow> world \<Rightarrow> environment \<Rightarrow> FlutterBackingStoreConfig \<Rightarrow> FlutterBackingStore
     \<Rightarrow> fatal \<times> world + bool \<times> FlutterBackingStore \<times> world" where
  "CreateBackingStore b w env config result =
     (if is_initialized w then allocate w config result
      else
        case Initialize b w env of
          Inl f \<Rightarrow> Inl f
        | Inr (initialized, w') \<Rightarrow>
            if \<not> initialized then Inr (False, result, w')
            else allocate w' config result)"

text \<open>\<^verbatim>\<open>CompositorOpenGL::CollectBackingStore\<close>, lines 77 to 90.\<close>

definition CollectBackingStore ::
  "build \<Rightarrow> world \<Rightarrow> FlutterBackingStore \<Rightarrow> fatal \<times> world + bool \<times> world" where
  "CollectBackingStore b w store =
     (if \<not> FML_DCHECK b (is_initialized w) then Inl (FML_DCHECK_failed, w)
      else if \<not> FML_DCHECK b (store_type store = kFlutterBackingStoreTypeOpenGL)
      then Inl (FML_DCHECK_failed, w)
      else if \<not> FML_DCHECK b (target_type (open_gl store) = kFlutterOpenGLTargetTypeFramebuffer)
      then Inl (FML_DCHECK_failed, w)
      else
        let address = user_data (framebuffer (open_gl store)) in
        case gl_table w of
          None \<Rightarrow> Inl (null_gl, w)
        | Some table \<Rightarrow>
            (case map_of (heap w) address of
               None \<Rightarrow> Inl (dangling_user_data, w)
             | Some metadata \<Rightarrow>
                 let w = gl (DeleteFramebuffers (framebuffer_id metadata)) w;
                     w = gl (DeleteTextures (texture_id metadata)) w;
                     w = w\<lparr>heap := filter (\<lambda>cell. fst cell \<noteq> address) (heap w)\<rparr>
                 in Inr (True, w)))"

text \<open>
  \<^verbatim>\<open>CompositorOpenGL::Present\<close>, lines 92 to 134; \<^verbatim>\<open>layers_count\<close> is the length of
  the array \<^verbatim>\<open>layers\<close>. With debug checks \<^verbatim>\<open>layers[0]\<close> is read only after the count
  has been checked. Under \<^verbatim>\<open>NDEBUG\<close> the first read of \<^verbatim>\<open>layers[0]\<close> is at line 107,
  whatever the count and the kinds are.
\<close>

definition Present ::
  "build \<Rightarrow> world \<Rightarrow> environment \<Rightarrow> FlutterLayer list \<Rightarrow> fatal \<times> world + bool \<times> world" where
  "Present b w env layers =
     (if \<not> FML_DCHECK b (is_initialized w) then Inl (FML_DCHECK_failed, w)
      else if \<not> FML_DCHECK b (length layers = 1) then Inl (FML_DCHECK_failed, w)
      else if \<not> FML_DCHECK b (layer_type (layers ! 0) = kFlutterLayerContentTypeBackingStore)
      then Inl (FML_DCHECK_failed, w)
      else if \<not> FML_DCHECK b
                  (store_type (backing_store (layers ! 0)) = kFlutterBackingStoreTypeOpenGL)
      then Inl (FML_DCHECK_failed, w)
      else if \<not> FML_DCHECK b
                  (target_type (open_gl (backing_store (layers ! 0)))
                     = kFlutterOpenGLTargetTypeFramebuffer)
      then Inl (FML_DCHECK_failed, w)
      else
        case view env of
          None \<Rightarrow> Inr (False, w)
        | Some v \<Rightarrow>
            (case layers of
               [] \<Rightarrow> Inl (layers_out_of_bounds, w)
             | layer # others \<Rightarrow>
                 let wd = width (layer_size layer);
                     ht = height (layer_size layer);
                     destination_id = GetFrameBufferId v (to_size_t wd) (to_size_t ht);
                     w = called (GetFrameBufferId_called (to_size_t wd) (to_size_t ht)) w;
                     source_id = name (framebuffer (open_gl (backing_store layer)));
                     w = called MakeCurrent_called w
                 in
                 if \<not> MakeCurrent env then Inr (False, w)
                 else
                   (case gl_table w of
                      None \<Rightarrow> Inl (null_gl, w)
                    | Some table \<Rightarrow>
                        let w = gl (BindFramebuffer GL_READ_FRAMEBUFFER source_id) w;
                            w = gl (BindFramebuffer GL_DRAW_FRAMEBUFFER destination_id) w;
                            w = gl (BlitFramebuffer 0 0 (to_int wd) (to_int ht)
                                      0 0 (to_int wd) (to_int ht)
                                      GL_COLOR_BUFFER_BIT GL_NEAREST) w;
                            w = called SwapBuffers_called w
                        in Inr (SwapBuffers v, w))))"

subsection \<open>Vocabulary of the properties\<close>

text \<open>
  The compositor sets \<^verbatim>\<open>gl_\<close> and \<^verbatim>\<open>is_initialized_\<close> together: a world is
  consistent when the function table is present exactly when the compositor is initialized.
\<close>

definition consistent :: "world \<Rightarrow> bool" where
  "consistent w = (is_initialized w = (gl_table w \<noteq> None))"

text \<open>The descriptors \<^verbatim>\<open>CollectBackingStore\<close> and \<^verbatim>\<open>Present\<close> check for.\<close>

definition is_framebuffer_store :: "FlutterBackingStore \<Rightarrow> bool" where
  "is_framebuffer_store store =
     (store_type store = kFlutterBackingStoreTypeOpenGL \<and>
      target_type (open_gl store) = kFlutterOpenGLTargetTypeFramebuffer)"

text \<open>The number of live GPU objects: textures plus framebuffers.\<close>

definition live_objects :: "world \<Rightarrow> nat" where
  "live_objects w = length (textures (gpu w)) + length (framebuffers (gpu w))"

text \<open>
  A run of \<^verbatim>\<open>CreateBackingStore\<close> calls that all return true, with the descriptors
  they fill in, and a run of \<^verbatim>\<open>CollectBackingStore\<close> calls that all return true.
\<close>

fun create_all ::
  "build \<Rightarrow> world \<Rightarrow> (environment \<times> FlutterBackingStoreConfig \<times> FlutterBackingStore) list
     \<Rightarrow> (FlutterBackingStore list \<times> world) option" where
  "create_all b w [] = Some ([], w)"
| "create_all b w ((env, config, result) # requests) =
     (case CreateBackingStore b w env config result of
        Inl f \<Rightarrow> None
      | Inr (ok, store, w') \<Rightarrow>
          if ok
          then (case create_all b w' requests of
                  None \<Rightarrow> None
                | Some (stores, w'') \<Rightarrow> Some (store # stores, w''))
          else None)"

fun collect_all :: "build \<Rightarrow> world \<Rightarrow> FlutterBackingStore list \<Rightarrow> world option" where
  "collect_all b w [] = Some w"
| "collect_all b w (store # stores) =
     (case CollectBackingStore b w store of
        Inl f \<Rightarrow> None
      | Inr (ok, w') \<Rightarrow> if ok then collect_all b w' stores else None)"

text \<open>The address a descriptor carries in \<^verbatim>\<open>user_data\<close>.\<close>

abbreviation (input) addr :: "FlutterBackingStore \<Rightarrow> nat" where
  "addr s \<equiv> user_data (framebuffer (open_gl s))"

subsection \<open>Concrete inputs\<close>

definition no_objects :: gl_state where
  "no_objects =
     \<lparr>textures = [], framebuffers = [], texture_objects = (\<lambda>n. default_texture),
      color_attachment0 = (\<lambda>n. 0), texture_binding_2d = 0,
      read_framebuffer_binding = 0, draw_framebuffer_binding = 0\<rparr>"

definition new_world :: world where
  "new_world =
     \<lparr>is_initialized = False, gl_table = None, format = 0, gpu = no_objects,
      heap = [], calls = []\<rparr>"

definition gles_with :: "string list \<Rightarrow> nat \<Rightarrow> nat \<Rightarrow> DescriptionGLES" where
  "gles_with exts major minor =
     \<lparr>extensions = set exts,
      gl_version = \<lparr>major_version = major, minor_version = minor\<rparr>\<rparr>"

definition a_view :: FlutterWindowsView where
  "a_view = \<lparr>GetFrameBufferId = (\<lambda>w h. 7), SwapBuffers = True\<rparr>"

definition good_env :: environment where
  "good_env =
     \<lparr>MakeCurrent = True,
      resolved = \<lparr>IsValid = True,
                  GetDescription = gles_with [''GL_EXT_texture_format_BGRA8888''] 3 0\<rparr>,
      view = Some a_view\<rparr>"

definition ready_world :: world where
  "ready_world =
     new_world\<lparr>is_initialized := True, gl_table := Some (resolved good_env),
       format := GL_BGRA8_EXT\<rparr>"

definition a_config :: "real \<Rightarrow> real \<Rightarrow> FlutterBackingStoreConfig" where
  "a_config w h = \<lparr>config_size = \<lparr>width = w, height = h\<rparr>\<rparr>"

definition blank_store :: FlutterBackingStore where
  "blank_store =
     \<lparr>store_type = kFlutterBackingStoreTypeSoftware,
      open_gl = \<lparr>target_type = kFlutterOpenGLTargetTypeTexture,
                 framebuffer = \<lparr>target = 0, name = 0, user_data = 0\<rparr>\<rparr>\<rparr>"

definition framebuffer_store :: "GLenum \<Rightarrow> GLuint \<Rightarrow> nat \<Rightarrow> FlutterBackingStore" where
  "framebuffer_store fmt fb address =
     \<lparr>store_type = kFlutterBackingStoreTypeOpenGL,
      open_gl = \<lparr>target_type = kFlutterOpenGLTargetTypeFramebuffer,
                 framebuffer = \<lparr>target = fmt, name = fb, user_data = address\<rparr>\<rparr>\<rparr>"

definition a_layer :: "FlutterBackingStore \<Rightarrow> real \<Rightarrow> real \<Rightarrow> FlutterLayer" where
  "a_layer store w h =
     \<lparr>layer_type = kFlutterLayerContentTypeBackingStore, backing_store = store,
      layer_size = \<lparr>width = w, height = h\<rparr>\<rparr>"

text \<open>
  The world after \<^verbatim>\<open>CreateBackingStore\<close> has been called once, for 800 by 600
  texels, in \<open>ready_world\<close>: texture 1 and framebuffer 1 exist, the metadata is at
  address 1, and eleven GL calls have been made.
\<close>

definition created_world :: world where
  "created_world =
     ready_world
       \<lparr>gpu :=
          \<lparr>textures = [1], framebuffers = [1],
           texture_objects = (\<lambda>n. default_texture)
             (1 := \<lparr>min_filter = GL_NEAREST, mag_filter = GL_NEAREST,
                    wrap_s = GL_CLAMP_TO_EDGE, wrap_t = GL_CLAMP_TO_EDGE,
                    images = [0 \<mapsto> \<lparr>internalformat = GL_RGBA8, image_width = 800,
                                      image_height = 600, border = 0,
                                      pixel_format = GL_RGBA,
                                      pixel_type = GL_UNSIGNED_BYTE\<rparr>]\<rparr>),
           color_attachment0 = (\<lambda>n. 0)(1 := 1),
           texture_binding_2d = 0,
           read_framebuffer_binding = 1, draw_framebuffer_binding = 1\<rparr>,
        heap := [(1, \<lparr>framebuffer_id = 1, texture_id = 1\<rparr>)],
        calls := map GL
          [GenTextures 1, GenFramebuffers 1,
           BindFramebuffer GL_FRAMEBUFFER 1, BindTexture GL_TEXTURE_2D 1,
           TexParameteri GL_TEXTURE_2D GL_TEXTURE_MIN_FILTER GL_NEAREST,
           TexParameteri GL_TEXTURE_2D GL_TEXTURE_MAG_FILTER GL_NEAREST,
           TexParameteri GL_TEXTURE_2D GL_TEXTURE_WRAP_S GL_CLAMP_TO_EDGE,
           TexParameteri GL_TEXTURE_2D GL_TEXTURE_WRAP_T GL_CLAMP_TO_EDGE,
           TexImage2D GL_TEXTURE_2D 0 GL_RGBA8 800 600 0 GL_RGBA GL_UNSIGNED_BYTE,
           BindTexture GL_TEXTURE_2D 0,
           FramebufferTexture2D GL_FRAMEBUFFER GL_COLOR_ATTACHMENT0_EXT GL_TEXTURE_2D 1 0]\<rparr>"

text \<open>
  The world after \<^verbatim>\<open>CreateBackingStore\<close> has been called once in \<open>ready_world\<close> for
  the size 2147483648 by 600: the width reaches \<^verbatim>\<open>TexImage2D\<close> as \<open>0x80000000\<close>, which
  is \<open>-2147483648\<close>, and texture 1 has no storage.
\<close>

definition wide_world :: world where
  "wide_world =
     ready_world
       \<lparr>gpu :=
          \<lparr>textures = [1], framebuffers = [1],
           texture_objects = (\<lambda>n. default_texture)
             (1 := \<lparr>min_filter = GL_NEAREST, mag_filter = GL_NEAREST,
                    wrap_s = GL_CLAMP_TO_EDGE, wrap_t = GL_CLAMP_TO_EDGE,
                    images = Map.empty\<rparr>),
           color_attachment0 = (\<lambda>n. 0)(1 := 1),
           texture_binding_2d = 0,
           read_framebuffer_binding = 1, draw_framebuffer_binding = 1\<rparr>,
        heap := [(1, \<lparr>framebuffer_id = 1, texture_id = 1\<rparr>)],
        calls := map GL
          [GenTextures 1, GenFramebuffers 1,
           BindFramebuffer GL_FRAMEBUFFER 1, BindTexture GL_TEXTURE_2D 1,
           TexParameteri GL_TEXTURE_2D GL_TEXTURE_MIN_FILTER GL_NEAREST,
           TexParameteri GL_TEXTURE_2D GL_TEXTURE_MAG_FILTER GL_NEAREST,
           TexParameteri GL_TEXTURE_2D GL_TEXTURE_WRAP_S GL_CLAMP_TO_EDGE,
           TexParameteri GL_TEXTURE_2D GL_TEXTURE_WRAP_T GL_CLAMP_TO_EDGE,
           TexImage2D GL_TEXTURE_2D 0 GL_RGBA8 0x80000000 600 0 GL_RGBA GL_UNSIGNED_BYTE,
           BindTexture GL_TEXTURE_2D 0,
           FramebufferTexture2D GL_FRAMEBUFFER GL_COLOR_ATTACHMENT0_EXT GL_TEXTURE_2D 1 0]\<rparr>"

section \<open>Facts about the model\<close>

subsection \<open>Enumerants, names and the driver\<close>

lemmas GL_enum_defs =
  GL_RGBA8_def GL_BGRA8_EXT_def GL_RGBA_def GL_UNSIGNED_BYTE_def GL_TEXTURE_2D_def
  GL_TEXTURE_MAG_FILTER_def GL_TEXTURE_MIN_FILTER_def GL_TEXTURE_WRAP_S_def
  GL_TEXTURE_WRAP_T_def GL_NEAREST_def GL_LINEAR_def GL_NEAREST_MIPMAP_LINEAR_def
  GL_REPEAT_def GL_CLAMP_TO_EDGE_def GL_FRAMEBUFFER_def GL_READ_FRAMEBUFFER_def
  GL_DRAW_FRAMEBUFFER_def GL_COLOR_ATTACHMENT0_EXT_def GL_COLOR_BUFFER_BIT_def

lemmas example_defs =
  new_world_def no_objects_def gles_with_def a_view_def good_env_def ready_world_def
  a_config_def blank_store_def framebuffer_store_def a_layer_def

lemma fold_max_ge: "x \<in> set xs \<Longrightarrow> x \<le> fold max xs (m::nat)"
proof (induction xs arbitrary: m)
  case Nil then show ?case by simp
next
  case (Cons a xs)
  have mono: "\<And>k. k \<le> fold max xs (k::nat)"
  proof -
    fix k :: nat show "k \<le> fold max xs k"
      by (induction xs arbitrary: k) (auto intro: order_trans[OF max.cobounded2])
  qed
  from Cons show ?case
    by (auto intro: order_trans[OF max.cobounded1 mono])
qed

lemma unused_name_fresh: "unused_name xs \<notin> set xs"
  using fold_max_ge[of "unused_name xs" xs 0] by (auto simp: unused_name_def)

lemma unused_name_nonzero: "unused_name xs \<noteq> 0"
  by (simp add: unused_name_def)

lemma unused_address: "unused_name (map fst xs) \<notin> fst ` set xs"
  using unused_name_fresh[of "map fst xs"] by simp

lemma set_parameter_simps:
  "set_parameter GL_TEXTURE_MIN_FILTER p t = t\<lparr>min_filter := p\<rparr>"
  "set_parameter GL_TEXTURE_MAG_FILTER p t = t\<lparr>mag_filter := p\<rparr>"
  "set_parameter GL_TEXTURE_WRAP_S p t = t\<lparr>wrap_s := p\<rparr>"
  "set_parameter GL_TEXTURE_WRAP_T p t = t\<lparr>wrap_t := p\<rparr>"
  by (simp_all add: set_parameter_def GL_enum_defs)

lemma gl_exec_BindFramebuffer_simps:
  "gl_exec (BindFramebuffer GL_FRAMEBUFFER fb) g = g\<lparr>read_framebuffer_binding := fb, draw_framebuffer_binding := fb\<rparr>"
  "gl_exec (BindFramebuffer GL_READ_FRAMEBUFFER fb) g = g\<lparr>read_framebuffer_binding := fb\<rparr>"
  "gl_exec (BindFramebuffer GL_DRAW_FRAMEBUFFER fb) g = g\<lparr>draw_framebuffer_binding := fb\<rparr>"
  by (simp_all add: GL_enum_defs)

lemma gl_fields [simp]:
  "is_initialized (gl c w) = is_initialized w"
  "gl_table (gl c w) = gl_table w"
  "format (gl c w) = format w"
  "heap (gl c w) = heap w"
  "gpu (gl c w) = gl_exec c (gpu w)"
  "calls (gl c w) = calls w @ [GL c]"
  by (simp_all add: gl_def)

lemma called_fields [simp]:
  "is_initialized (called e w) = is_initialized w"
  "gl_table (called e w) = gl_table w"
  "format (called e w) = format w"
  "heap (called e w) = heap w"
  "gpu (called e w) = gpu w"
  "calls (called e w) = calls w @ [e]"
  by (simp_all add: called_def)

lemma FML_DCHECK_simps [simp]:
  "FML_DCHECK debug_checks c = c" "FML_DCHECK NDEBUG c" "c \<Longrightarrow> FML_DCHECK b c"
  by (simp_all add: FML_DCHECK_def)

subsection \<open>Narrowing whole numbers\<close>

lemma truncated_whole: "truncated (real n) = int n"
  by (simp add: truncated_def)

lemma to_int_whole: "n < 2 ^ 31 \<Longrightarrow> to_int (real n) = of_nat n"
  by (simp add: to_int_def truncated_whole)

lemma to_size_t_whole: "n < 2 ^ 64 \<Longrightarrow> to_size_t (real n) = of_nat n"
  by (simp add: to_size_t_def truncated_whole)

lemma unat_whole: "n < 2 ^ 31 \<Longrightarrow> unat (of_nat n :: 32 word) = n"
  by (simp add: unsigned_of_nat take_bit_nat_eq_self)

lemma sint_whole: "n < 2 ^ 31 \<Longrightarrow> sint (of_nat n :: 32 word) = int n"
  by (simp add: signed_of_nat signed_take_bit_int_eq_self)

lemma unat_whole_size_t: "n < 2 ^ 64 \<Longrightarrow> unat (of_nat n :: 64 word) = n"
  by (simp add: unsigned_of_nat take_bit_nat_eq_self)

lemma narrow_examples:
  "to_int 800 = 800" "to_int 600 = 600" "to_int 1920 = 1920" "to_int 1080 = 1080"
  "to_int 640 = 640" "to_int 480 = 480" "to_int 1 = 1"
  "to_size_t 800 = 800" "to_size_t 600 = 600" "to_size_t 1920 = 1920" "to_size_t 1080 = 1080"
  "to_size_t 640 = 640" "to_size_t 480 = 480"
  "to_int 2147483648 = 0x80000000" "to_size_t 2147483648 = 2147483648"
  by (simp_all add: to_int_def to_size_t_def truncated_def)

subsection \<open>Lists and association lists\<close>

lemma map_of_append_fresh:
  "a \<notin> fst ` set xs \<Longrightarrow> map_of (xs @ [(a, v)]) a = Some v"
  by (induction xs) auto

lemma map_of_filter_key:
  "map_of (filter (\<lambda>c. P (fst c)) xs) k = (if P k then map_of xs k else None)"
  by (induction xs) auto

lemma filter_out_key:
  "filter (\<lambda>c. f c \<noteq> a) (filter (\<lambda>c. f c \<notin> R) xs) = filter (\<lambda>c. f c \<notin> insert a R) xs"
  by (induction xs) auto

lemma removeAll_filter_out:
  "removeAll a (filter (\<lambda>x. x \<notin> R) xs) = filter (\<lambda>x. x \<notin> insert a R) xs"
  by (induction xs) auto

lemma filter_out_appended:
  assumes "f ` set ys = N" and "N \<inter> f ` set xs = {}"
  shows "filter (\<lambda>c. f c \<notin> N) (xs @ ys) = xs"
proof -
  have "filter (\<lambda>c. f c \<notin> N) xs = xs"
    using assms(2) by (auto simp: filter_id_conv)
  moreover have "filter (\<lambda>c. f c \<notin> N) ys = []"
    using assms(1) by (auto simp: filter_empty_conv)
  ultimately show ?thesis by simp
qed

lemma map_of_appended_cell:
  assumes "c \<in> set cells" and "distinct (map fst cells)" and "fst c \<notin> fst ` set base"
  shows "map_of (base @ cells) (fst c) = Some (snd c)"
proof -
  have "map_of cells (fst c) = Some (snd c)"
    using assms(1,2) by simp
  moreover have "map_of base (fst c) = None"
    using assms(3) by (simp add: map_of_eq_None_iff)
  ultimately show ?thesis by (simp add: map_add_def)
qed

subsection \<open>Initialize\<close>

lemma Initialize_guard:
  "is_initialized w \<Longrightarrow> Initialize debug_checks w env = Inl (FML_DCHECK_failed, w)"
  by (simp add: Initialize_def)

lemma Initialize_success:
  "\<not> is_initialized w \<Longrightarrow> MakeCurrent env \<Longrightarrow> IsValid (resolved env) \<Longrightarrow>
   Initialize b w env = Inr (True,
     w\<lparr>calls := calls w @ [MakeCurrent_called], gl_table := Some (resolved env),
       format := GetSupportedTextureFormat (GetDescription (resolved env)),
       is_initialized := True\<rparr>)"
  by (simp add: Initialize_def Let_def called_def)

lemma Initialize_failure:
  "\<not> is_initialized w \<Longrightarrow> \<not> (MakeCurrent env \<and> IsValid (resolved env)) \<Longrightarrow>
   Initialize b w env = Inr (False,
     w\<lparr>calls := calls w @ [MakeCurrent_called],
       gl_table := (if MakeCurrent env then None else gl_table w)\<rparr>)"
  by (auto simp: Initialize_def Let_def called_def)

lemma allocate_effect:
  assumes "allocate w config result = Inr (ok, store, w')"
  defines "t \<equiv> unused_name (textures (gpu w))"
      and "f \<equiv> unused_name (framebuffers (gpu w))"
      and "a \<equiv> unused_name (map fst (heap w))"
  shows "ok"
    and "store = result\<lparr>store_type := kFlutterBackingStoreTypeOpenGL,
                 open_gl := \<lparr>target_type = kFlutterOpenGLTargetTypeFramebuffer,
                   framebuffer = \<lparr>target = format w, name = f, user_data = a\<rparr>\<rparr>\<rparr>"
    and "is_initialized w' = is_initialized w"
    and "gl_table w' = gl_table w"
    and "format w' = format w"
    and "heap w' = heap w @ [(a, \<lparr>framebuffer_id = f, texture_id = t\<rparr>)]"
    and "textures (gpu w') = textures (gpu w) @ [t]"
    and "framebuffers (gpu w') = framebuffers (gpu w) @ [f]"
    and "texture_binding_2d (gpu w') = 0"
    and "read_framebuffer_binding (gpu w') = f"
    and "draw_framebuffer_binding (gpu w') = f"
    and "texture_objects (gpu w') = (texture_objects (gpu w))
           (t := \<lparr>min_filter = GL_NEAREST, mag_filter = GL_NEAREST,
                  wrap_s = GL_CLAMP_TO_EDGE, wrap_t = GL_CLAMP_TO_EDGE,
                  images =
                    (if 0 \<le> sint (to_int (width (config_size config))) \<and>
                        0 \<le> sint (to_int (height (config_size config)))
                     then [0 \<mapsto> \<lparr>internalformat = GL_RGBA8,
                             image_width = unat (to_int (width (config_size config))),
                             image_height = unat (to_int (height (config_size config))),
                             border = 0,
                             pixel_format = GL_RGBA, pixel_type = GL_UNSIGNED_BYTE\<rparr>]
                     else Map.empty)\<rparr>)"
    and "color_attachment0 (gpu w') = (color_attachment0 (gpu w))(f := t)"
    and "calls w' = calls w @ map GL
           [GenTextures t, GenFramebuffers f,
            BindFramebuffer GL_FRAMEBUFFER f, BindTexture GL_TEXTURE_2D t,
            TexParameteri GL_TEXTURE_2D GL_TEXTURE_MIN_FILTER GL_NEAREST,
            TexParameteri GL_TEXTURE_2D GL_TEXTURE_MAG_FILTER GL_NEAREST,
            TexParameteri GL_TEXTURE_2D GL_TEXTURE_WRAP_S GL_CLAMP_TO_EDGE,
            TexParameteri GL_TEXTURE_2D GL_TEXTURE_WRAP_T GL_CLAMP_TO_EDGE,
            TexImage2D GL_TEXTURE_2D 0 GL_RGBA8 (to_int (width (config_size config)))
              (to_int (height (config_size config))) 0 GL_RGBA GL_UNSIGNED_BYTE,
            BindTexture GL_TEXTURE_2D 0,
            FramebufferTexture2D GL_FRAMEBUFFER GL_COLOR_ATTACHMENT0_EXT
              GL_TEXTURE_2D t 0]"
  using assms(1) unfolding t_def f_def a_def
  by (auto simp: allocate_def Let_def set_parameter_simps gl_exec_BindFramebuffer_simps default_texture_def
           split: option.splits)

lemma allocate_returns:
  "gl_table w = Some table \<Longrightarrow> \<exists>store w'. allocate w config result = Inr (True, store, w')"
  by (simp add: allocate_def Let_def)

lemma allocate_null: "gl_table w = None \<Longrightarrow> allocate w config result = Inl (null_gl, w)"
  by (simp add: allocate_def)

lemma allocate_needs_table:
  "allocate w config result = Inr r \<Longrightarrow> \<exists>table. gl_table w = Some table"
  by (cases "gl_table w") (simp_all add: allocate_null)

lemma Initialize_True:
  assumes "Initialize b w env = Inr (True, wi)"
  shows "b = debug_checks \<longrightarrow> \<not> is_initialized w" and "MakeCurrent env"
    and "IsValid (resolved env)"
    and "wi = w\<lparr>calls := calls w @ [MakeCurrent_called], gl_table := Some (resolved env),
       format := GetSupportedTextureFormat (GetDescription (resolved env)),
       is_initialized := True\<rparr>"
  using assms by (auto simp: Initialize_def Let_def called_def split: if_splits)

subsection \<open>CreateBackingStore\<close>

lemma allocate_calls:
  "allocate w config result = Inr (ok, store, w') \<Longrightarrow>
   \<exists>gl_calls. calls w' = calls w @ map GL gl_calls"
  using allocate_effect(14) by blast

lemma live_objects_allocate:
  "allocate w config result = Inr (ok, store, w') \<Longrightarrow> live_objects w' = live_objects w + 2"
  by (simp add: live_objects_def allocate_effect(7,8))

lemma allocate_storage:
  assumes "allocate w config result = Inr (True, store, w')"
  shows "\<exists>fb texture.
      map_of (heap w') (user_data (framebuffer (open_gl store)))
        = Some \<lparr>framebuffer_id = fb, texture_id = texture\<rparr> \<and>
      texture \<in> set (textures (gpu w')) \<and> texture \<notin> set (textures (gpu w)) \<and>
      name (framebuffer (open_gl store)) = fb \<and>
      color_attachment0 (gpu w') fb = texture \<and>
      min_filter (texture_objects (gpu w') texture) = GL_NEAREST \<and>
      mag_filter (texture_objects (gpu w') texture) = GL_NEAREST \<and>
      wrap_s (texture_objects (gpu w') texture) = GL_CLAMP_TO_EDGE \<and>
      wrap_t (texture_objects (gpu w') texture) = GL_CLAMP_TO_EDGE \<and>
      GL (TexImage2D GL_TEXTURE_2D 0 GL_RGBA8 (to_int (width (config_size config)))
            (to_int (height (config_size config))) 0 GL_RGBA GL_UNSIGNED_BYTE)
        \<in> set (drop (length (calls w)) (calls w')) \<and>
      (\<forall>m n. width (config_size config) = real m \<and> height (config_size config) = real n \<and>
             m < 2 ^ 31 \<and> n < 2 ^ 31 \<longrightarrow>
         images (texture_objects (gpu w') texture) =
           [0 \<mapsto> \<lparr>internalformat = GL_RGBA8, image_width = m, image_height = n, border = 0,
                   pixel_format = GL_RGBA, pixel_type = GL_UNSIGNED_BYTE\<rparr>]) \<and>
      target (framebuffer (open_gl store)) = format w' \<and> format w' = format w"
  using allocate_effect(2,5,6,7,12,13,14)[OF assms] unused_name_fresh[of "textures (gpu w)"]
        map_of_append_fresh[OF unused_address[of "heap w"]]
  by (simp add: to_int_whole sint_whole unat_whole)

lemma CreateBackingStore_initialized:
  "is_initialized w \<Longrightarrow> CreateBackingStore b w env config result = allocate w config result"
  by (simp add: CreateBackingStore_def)

lemma CreateBackingStore_initializes:
  "\<not> is_initialized w \<Longrightarrow> Initialize b w env = Inr (True, wi) \<Longrightarrow>
   CreateBackingStore b w env config result = allocate wi config result"
  by (simp add: CreateBackingStore_def)

lemma CreateBackingStore_fails:
  "\<not> is_initialized w \<Longrightarrow> Initialize b w env = Inr (False, wi) \<Longrightarrow>
   CreateBackingStore b w env config result = Inr (False, result, wi)"
  by (simp add: CreateBackingStore_def)

lemma CreateBackingStore_success_cases:
  assumes "CreateBackingStore b w env config result = Inr (True, store, w')"
  obtains (ready) "is_initialized w" and "allocate w config result = Inr (True, store, w')"
  | (lazy) wi where "\<not> is_initialized w" and "Initialize b w env = Inr (True, wi)"
      and "allocate wi config result = Inr (True, store, w')"
proof (cases "is_initialized w")
  case True
  with assms ready show ?thesis by (simp add: CreateBackingStore_initialized)
next
  case False
  with assms obtain ok wi where i: "Initialize b w env = Inr (ok, wi)"
    by (auto simp: CreateBackingStore_def split: sum.splits)
  with assms False have "ok" by (auto simp: CreateBackingStore_def split: if_splits)
  with assms False i lazy show ?thesis by (auto simp: CreateBackingStore_def)
qed

lemma CreateBackingStore_stays_initialized:
  assumes "CreateBackingStore b w env config result = Inr (True, store, w')"
  shows "is_initialized w' \<and> (\<exists>table. gl_table w' = Some table)"
  using assms
proof (cases rule: CreateBackingStore_success_cases)
  case ready
  then show ?thesis
    using allocate_effect(3,4)[OF ready(2)] allocate_needs_table[OF ready(2)] by simp
next
  case (lazy wi)
  then show ?thesis
    using allocate_effect(3,4)[OF lazy(3)] Initialize_True(4)[OF lazy(2)] by simp
qed

lemma CreateBackingStore_ready_keeps:
  assumes "is_initialized w" and "CreateBackingStore b w env config result = Inr (ok, store, w')"
  shows "is_initialized w' \<and> gl_table w' = gl_table w \<and> format w' = format w \<and>
         (\<exists>gl_calls. calls w' = calls w @ map GL gl_calls)"
  using assms allocate_effect(3,4,5)[of w config result ok store w']
    allocate_calls[of w config result ok store w']
  by (simp add: CreateBackingStore_initialized)

lemma CreateBackingStore_returns:
  assumes "consistent w" and "is_initialized w \<or> (MakeCurrent env \<and> IsValid (resolved env))"
  shows "\<exists>store w'. CreateBackingStore b w env config result = Inr (True, store, w') \<and>
           is_initialized w' \<and> consistent w'"
proof -
  have "\<exists>store w'. CreateBackingStore b w env config result = Inr (True, store, w')"
  proof (cases "is_initialized w")
    case True
    with assms(1) obtain table where "gl_table w = Some table"
      by (auto simp: consistent_def)
    from allocate_returns[OF this] True show ?thesis
      by (simp add: CreateBackingStore_initialized)
  next
    case False
    with assms(2) have i: "Initialize b w env = Inr (True,
       w\<lparr>calls := calls w @ [MakeCurrent_called], gl_table := Some (resolved env),
         format := GetSupportedTextureFormat (GetDescription (resolved env)),
         is_initialized := True\<rparr>)"
      by (simp add: Initialize_success)
    show ?thesis
      unfolding CreateBackingStore_initializes[OF False i]
      by (rule allocate_returns[of _ "resolved env"]) simp
  qed
  then obtain store w' where c: "CreateBackingStore b w env config result = Inr (True, store, w')"
    by blast
  from CreateBackingStore_stays_initialized[OF c] c show ?thesis
    by (auto simp: consistent_def)
qed

lemma create_step:
  assumes "CreateBackingStore b w env config result = Inr (True, store, w')"
  shows "\<exists>cell. heap w' = heap w @ [cell] \<and> fst cell \<notin> fst ` set (heap w) \<and>
      textures (gpu w') = textures (gpu w) @ [texture_id (snd cell)] \<and>
      texture_id (snd cell) \<notin> set (textures (gpu w)) \<and>
      framebuffers (gpu w') = framebuffers (gpu w) @ [framebuffer_id (snd cell)] \<and>
      framebuffer_id (snd cell) \<notin> set (framebuffers (gpu w)) \<and>
      addr store = fst cell \<and> is_framebuffer_store store"
  using assms
proof (cases rule: CreateBackingStore_success_cases)
  case ready
  show ?thesis
    using allocate_effect(2,6,7,8)[OF ready(2)]
      unused_name_fresh[of "textures (gpu w)"] unused_name_fresh[of "framebuffers (gpu w)"]
      unused_address[of "heap w"]
    by (simp add: is_framebuffer_store_def)
next
  case (lazy wi)
  show ?thesis
    using allocate_effect(2,6,7,8)[OF lazy(3)] Initialize_True(4)[OF lazy(2)]
      unused_name_fresh[of "textures (gpu w)"] unused_name_fresh[of "framebuffers (gpu w)"]
      unused_address[of "heap w"]
    by (simp add: is_framebuffer_store_def)
qed

lemma create_metadata:
  assumes "CreateBackingStore b w env config result = Inr (True, store, w')"
  shows "\<exists>fb texture.
      map_of (heap w') (addr store) = Some \<lparr>framebuffer_id = fb, texture_id = texture\<rparr> \<and>
      name (framebuffer (open_gl store)) = fb \<and>
      textures (gpu w') = textures (gpu w) @ [texture] \<and> texture \<notin> set (textures (gpu w)) \<and>
      framebuffers (gpu w') = framebuffers (gpu w) @ [fb] \<and> fb \<notin> set (framebuffers (gpu w))"
  using assms
proof (cases rule: CreateBackingStore_success_cases)
  case ready
  show ?thesis
    using allocate_effect(2,6,7,8)[OF ready(2)]
      unused_name_fresh[of "textures (gpu w)"] unused_name_fresh[of "framebuffers (gpu w)"]
      map_of_append_fresh[OF unused_address[of "heap w"]]
    by simp
next
  case (lazy wi)
  show ?thesis
    using allocate_effect(2,6,7,8)[OF lazy(3)] Initialize_True(4)[OF lazy(2)]
      unused_name_fresh[of "textures (gpu w)"] unused_name_fresh[of "framebuffers (gpu w)"]
      map_of_append_fresh[OF unused_address[of "heap w"]]
    by simp
qed

subsection \<open>CollectBackingStore\<close>

lemma CollectBackingStore_effect:
  assumes "CollectBackingStore b w store = Inr (ok, w')"
  shows "ok"
    and "b = debug_checks \<longrightarrow> is_initialized w"
    and "b = debug_checks \<longrightarrow> is_framebuffer_store store"
    and "is_initialized w' = is_initialized w"
    and "gl_table w' = gl_table w"
    and "format w' = format w"
    and "\<exists>metadata. map_of (heap w) (user_data (framebuffer (open_gl store))) = Some metadata \<and>
           textures (gpu w') = removeAll (texture_id metadata) (textures (gpu w)) \<and>
           framebuffers (gpu w') = removeAll (framebuffer_id metadata) (framebuffers (gpu w)) \<and>
           heap w' = filter (\<lambda>cell. fst cell \<noteq> user_data (framebuffer (open_gl store))) (heap w) \<and>
           calls w' = calls w @ map GL [DeleteFramebuffers (framebuffer_id metadata),
                                        DeleteTextures (texture_id metadata)]"
  using assms
  by (auto simp: CollectBackingStore_def Let_def is_framebuffer_store_def
           split: if_splits option.splits)

lemma CollectBackingStore_returns:
  assumes "is_initialized w" and "gl_table w = Some table" and "is_framebuffer_store store"
    and "map_of (heap w) (user_data (framebuffer (open_gl store))) = Some metadata"
  shows "\<exists>w'. CollectBackingStore b w store = Inr (True, w')"
  using assms by (simp add: CollectBackingStore_def Let_def is_framebuffer_store_def)

lemma collect_step:
  assumes "is_initialized v" and "gl_table v = Some table" and "is_framebuffer_store s"
    and "map_of (heap v) (addr s) = Some m"
  shows "\<exists>v'. CollectBackingStore b v s = Inr (True, v') \<and>
      is_initialized v' \<and> gl_table v' = Some table \<and>
      heap v' = filter (\<lambda>c. fst c \<noteq> addr s) (heap v) \<and>
      textures (gpu v') = removeAll (texture_id m) (textures (gpu v)) \<and>
      framebuffers (gpu v') = removeAll (framebuffer_id m) (framebuffers (gpu v))"
  using assms by (simp add: CollectBackingStore_def Let_def is_framebuffer_store_def)

lemma collect_metadata:
  assumes "CollectBackingStore b w store = Inr (True, w')"
  shows "\<exists>fb texture.
      map_of (heap w) (addr store) = Some \<lparr>framebuffer_id = fb, texture_id = texture\<rparr> \<and>
      textures (gpu w') = removeAll texture (textures (gpu w)) \<and>
      framebuffers (gpu w') = removeAll fb (framebuffers (gpu w)) \<and>
      map_of (heap w') (addr store) = None"
proof -
  from CollectBackingStore_effect(7)[OF assms] obtain metadata where m:
    "map_of (heap w) (addr store) = Some metadata"
    "textures (gpu w') = removeAll (texture_id metadata) (textures (gpu w))"
    "framebuffers (gpu w') = removeAll (framebuffer_id metadata) (framebuffers (gpu w))"
    "heap w' = filter (\<lambda>cell. fst cell \<noteq> addr store) (heap w)"
    by (elim exE conjE) (rule that)
  have "map_of (heap w') (addr store) = None"
    unfolding m(4) using map_of_filter_key[of "\<lambda>k. k \<noteq> addr store" "heap w" "addr store"]
    by simp
  with m(1,2,3) show ?thesis
    by (cases metadata) simp
qed

subsection \<open>Present\<close>


lemma Present_no_view:
  "view env = None \<Longrightarrow>
   Present b w env layers = Inr (False, w) \<or>
   (b = debug_checks \<and> Present b w env layers = Inl (FML_DCHECK_failed, w))"
  by (cases b) (auto simp: Present_def)

lemma Present_no_view_precondition:
  "is_initialized w \<Longrightarrow> layer_type layer = kFlutterLayerContentTypeBackingStore \<Longrightarrow>
   is_framebuffer_store (backing_store layer) \<Longrightarrow> view env = None \<Longrightarrow>
   Present b w env [layer] = Inr (False, w)"
  by (simp add: Present_def is_framebuffer_store_def)

lemma Present_checks_pass:
  assumes "b = NDEBUG \<or>
           (is_initialized w \<and> layer_type layer = kFlutterLayerContentTypeBackingStore \<and>
            is_framebuffer_store (backing_store layer) \<and> others = [])"
    and "gl_table w = Some table" and "view env = Some v"
  shows "Present b w env (layer # others) =
     Inr (MakeCurrent env \<and> SwapBuffers v,
       w\<lparr>gpu :=
            (if MakeCurrent env
             then (gpu w)\<lparr>read_framebuffer_binding := name (framebuffer (open_gl (backing_store layer))),
                    draw_framebuffer_binding :=
                      GetFrameBufferId v (to_size_t (width (layer_size layer)))
                        (to_size_t (height (layer_size layer)))\<rparr>
             else gpu w),
          calls := calls w @
            GetFrameBufferId_called (to_size_t (width (layer_size layer)))
              (to_size_t (height (layer_size layer))) #
            MakeCurrent_called #
            (if MakeCurrent env
             then [GL (BindFramebuffer GL_READ_FRAMEBUFFER (name (framebuffer (open_gl (backing_store layer))))),
                   GL (BindFramebuffer GL_DRAW_FRAMEBUFFER
                         (GetFrameBufferId v (to_size_t (width (layer_size layer)))
                            (to_size_t (height (layer_size layer))))),
                   GL (BlitFramebuffer 0 0 (to_int (width (layer_size layer)))
                         (to_int (height (layer_size layer)))
                         0 0 (to_int (width (layer_size layer)))
                         (to_int (height (layer_size layer)))
                         GL_COLOR_BUFFER_BIT GL_NEAREST),
                   SwapBuffers_called]
             else [])\<rparr>)"
proof -
  have checks:
    "FML_DCHECK b (is_initialized w)" "FML_DCHECK b (length (layer # others) = 1)"
    "FML_DCHECK b (layer_type ((layer # others) ! 0) = kFlutterLayerContentTypeBackingStore)"
    "FML_DCHECK b (store_type (backing_store ((layer # others) ! 0)) = kFlutterBackingStoreTypeOpenGL)"
    "FML_DCHECK b (target_type (open_gl (backing_store ((layer # others) ! 0)))
                     = kFlutterOpenGLTargetTypeFramebuffer)"
    using assms(1) by (auto simp: FML_DCHECK_def is_framebuffer_store_def)
  show ?thesis
    unfolding Present_def
    by (simp only: checks not_True_eq_False if_False)
       (simp add: assms(2,3) Let_def gl_def called_def gl_exec_BindFramebuffer_simps
          del: gl_exec.simps(3))
qed

lemma Present_keeps:
  assumes "Present b w env layers = Inr (ok, w')"
  shows "is_initialized w' = is_initialized w" and "gl_table w' = gl_table w"
    and "format w' = format w" and "heap w' = heap w"
proof -
  have "is_initialized w' = is_initialized w \<and> gl_table w' = gl_table w \<and>
        format w' = format w \<and> heap w' = heap w"
  proof (cases "view env")
    case None
    with assms show ?thesis by (simp add: Present_def split: if_splits)
  next
    case (Some v)
    show ?thesis
    proof (cases layers)
      case Nil
      with assms Some show ?thesis by (simp add: Present_def split: if_splits)
    next
      case (Cons layer others)
      with assms Some show ?thesis
        by (cases "MakeCurrent env"; cases "gl_table w")
           (auto simp add: Present_def Let_def split: if_splits)
    qed
  qed
  then show "is_initialized w' = is_initialized w" and "gl_table w' = gl_table w"
    and "format w' = format w" and "heap w' = heap w"
    by simp_all
qed

subsection \<open>Runs of calls\<close>

lemma create_all_effect:
  assumes "create_all b w requests = Some (stores, w1)"
  shows "\<exists>cells. length cells = length requests \<and>
      heap w1 = heap w @ cells \<and>
      textures (gpu w1) = textures (gpu w) @ map (\<lambda>c. texture_id (snd c)) cells \<and>
      framebuffers (gpu w1) = framebuffers (gpu w) @ map (\<lambda>c. framebuffer_id (snd c)) cells \<and>
      map addr stores = map fst cells \<and>
      (\<forall>s\<in>set stores. is_framebuffer_store s) \<and>
      distinct (map fst cells) \<and> fst ` set cells \<inter> fst ` set (heap w) = {} \<and>
      (\<lambda>c. texture_id (snd c)) ` set cells \<inter> set (textures (gpu w)) = {} \<and>
      (\<lambda>c. framebuffer_id (snd c)) ` set cells \<inter> set (framebuffers (gpu w)) = {} \<and>
      (requests \<noteq> [] \<longrightarrow> is_initialized w1 \<and> (\<exists>table. gl_table w1 = Some table))"
  using assms
proof (induction requests arbitrary: w stores)
  case Nil
  then show ?case by simp
next
  case (Cons request requests)
  obtain env config result where request: "request = (env, config, result)"
    by (cases request) auto
  from Cons.prems request obtain store w' stores'
    where first: "CreateBackingStore b w env config result = Inr (True, store, w')"
      and rest: "create_all b w' requests = Some (stores', w1)"
      and stores: "stores = store # stores'"
    by (auto split: sum.splits if_splits option.splits)
  from create_step[OF first] obtain cell where cell:
    "heap w' = heap w @ [cell]" "fst cell \<notin> fst ` set (heap w)"
    "textures (gpu w') = textures (gpu w) @ [texture_id (snd cell)]"
    "texture_id (snd cell) \<notin> set (textures (gpu w))"
    "framebuffers (gpu w') = framebuffers (gpu w) @ [framebuffer_id (snd cell)]"
    "framebuffer_id (snd cell) \<notin> set (framebuffers (gpu w))"
    "addr store = fst cell" "is_framebuffer_store store"
    by (elim exE conjE) (rule that)
  from Cons.IH[OF rest] obtain cells where cells:
    "length cells = length requests"
    "heap w1 = heap w' @ cells"
    "textures (gpu w1) = textures (gpu w') @ map (\<lambda>c. texture_id (snd c)) cells"
    "framebuffers (gpu w1) = framebuffers (gpu w') @ map (\<lambda>c. framebuffer_id (snd c)) cells"
    "map addr stores' = map fst cells"
    "\<forall>s\<in>set stores'. is_framebuffer_store s"
    "distinct (map fst cells)" "fst ` set cells \<inter> fst ` set (heap w') = {}"
    "(\<lambda>c. texture_id (snd c)) ` set cells \<inter> set (textures (gpu w')) = {}"
    "(\<lambda>c. framebuffer_id (snd c)) ` set cells \<inter> set (framebuffers (gpu w')) = {}"
    "requests \<noteq> [] \<longrightarrow> is_initialized w1 \<and> (\<exists>table. gl_table w1 = Some table)"
    by (elim exE conjE) (rule that)
  have init: "is_initialized w1 \<and> (\<exists>table. gl_table w1 = Some table)"
  proof (cases requests)
    case Nil
    with rest have "w1 = w'" by simp
    with CreateBackingStore_stays_initialized[OF first] show ?thesis by simp
  next
    case (Cons a list)
    with cells(11) show ?thesis by simp
  qed
  show ?case
  proof (intro exI[of _ "cell # cells"] conjI)
    show "length (cell # cells) = length (request # requests)" using cells(1) by simp
    show "heap w1 = heap w @ cell # cells" using cells(2) cell(1) by simp
    show "textures (gpu w1) = textures (gpu w) @ map (\<lambda>c. texture_id (snd c)) (cell # cells)"
      using cells(3) cell(3) by simp
    show "framebuffers (gpu w1) = framebuffers (gpu w) @ map (\<lambda>c. framebuffer_id (snd c)) (cell # cells)"
      using cells(4) cell(5) by simp
    show "map addr stores = map fst (cell # cells)" using cells(5) cell(7) stores by simp
    show "\<forall>s\<in>set stores. is_framebuffer_store s" using cells(6) cell(8) stores by simp
    show "distinct (map fst (cell # cells))" using cells(7,8) cell(1) by auto
    show "fst ` set (cell # cells) \<inter> fst ` set (heap w) = {}"
      using cells(8) cell(1,2) by auto
    show "(\<lambda>c. texture_id (snd c)) ` set (cell # cells) \<inter> set (textures (gpu w)) = {}"
      using cells(9) cell(3,4) by auto
    show "(\<lambda>c. framebuffer_id (snd c)) ` set (cell # cells) \<inter> set (framebuffers (gpu w)) = {}"
      using cells(10) cell(5,6) by auto
    show "request # requests \<noteq> [] \<longrightarrow> is_initialized w1 \<and> (\<exists>table. gl_table w1 = Some table)"
      using init by simp
  qed
qed

lemma collect_all_effect:
  assumes "order \<noteq> [] \<longrightarrow> is_initialized v \<and> gl_table v = Some table"
    and "heap v = filter (\<lambda>c. fst c \<notin> R) H"
    and "textures (gpu v) = filter (\<lambda>t. t \<notin> TR) T"
    and "framebuffers (gpu v) = filter (\<lambda>f. f \<notin> FR) F"
    and "distinct (map addr order)"
    and "\<forall>s\<in>set order. is_framebuffer_store s \<and> addr s \<notin> R \<and> (\<exists>m. map_of H (addr s) = Some m)"
  shows "\<exists>v'. collect_all b v order = Some v' \<and>
      heap v' = filter (\<lambda>c. fst c \<notin> R \<union> addr ` set order) H \<and>
      textures (gpu v') =
        filter (\<lambda>t. t \<notin> TR \<union> (\<lambda>s. texture_id (the (map_of H (addr s)))) ` set order) T \<and>
      framebuffers (gpu v') =
        filter (\<lambda>f. f \<notin> FR \<union> (\<lambda>s. framebuffer_id (the (map_of H (addr s)))) ` set order) F"
  using assms
proof (induction order arbitrary: v R TR FR)
  case Nil
  then show ?case by simp
next
  case (Cons s order)
  from Cons.prems(6) obtain m where m: "map_of H (addr s) = Some m"
    and kind: "is_framebuffer_store s" and notR: "addr s \<notin> R" by auto
  have live: "map_of (heap v) (addr s) = Some m"
    using m notR by (simp add: Cons.prems(2) map_of_filter_key[of "\<lambda>k. k \<notin> R"])
  from Cons.prems(1) have init: "is_initialized v" "gl_table v = Some table" by simp_all
  from collect_step[where b = b, OF init kind live] obtain v1 where v1:
    "CollectBackingStore b v s = Inr (True, v1)" "is_initialized v1" "gl_table v1 = Some table"
    "heap v1 = filter (\<lambda>c. fst c \<noteq> addr s) (heap v)"
    "textures (gpu v1) = removeAll (texture_id m) (textures (gpu v))"
    "framebuffers (gpu v1) = removeAll (framebuffer_id m) (framebuffers (gpu v))"
    by (elim exE conjE) (rule that)
  have h1: "heap v1 = filter (\<lambda>c. fst c \<notin> insert (addr s) R) H"
    using v1(4) Cons.prems(2) by (simp only: filter_out_key)
  have t1: "textures (gpu v1) = filter (\<lambda>t. t \<notin> insert (texture_id m) TR) T"
    using v1(5) Cons.prems(3) by (simp only: removeAll_filter_out)
  have f1: "framebuffers (gpu v1) = filter (\<lambda>f. f \<notin> insert (framebuffer_id m) FR) F"
    using v1(6) Cons.prems(4) by (simp only: removeAll_filter_out)
  have d: "distinct (map addr order)" using Cons.prems(5) by simp
  have rest: "\<forall>s'\<in>set order. is_framebuffer_store s' \<and> addr s' \<notin> insert (addr s) R \<and>
                (\<exists>m. map_of H (addr s') = Some m)"
  proof
    fix s' assume s': "s' \<in> set order"
    have "addr s \<notin> addr ` set order" using Cons.prems(5) by simp
    with s' have "addr s' \<noteq> addr s" by (metis imageI)
    with s' Cons.prems(6) show "is_framebuffer_store s' \<and> addr s' \<notin> insert (addr s) R \<and>
                (\<exists>m. map_of H (addr s') = Some m)" by simp
  qed
  have "order \<noteq> [] \<longrightarrow> is_initialized v1 \<and> gl_table v1 = Some table"
    using v1(2,3) by simp
  from Cons.IH[OF this h1 t1 f1 d rest] obtain v' where v':
    "collect_all b v1 order = Some v'"
    "heap v' = filter (\<lambda>c. fst c \<notin> insert (addr s) R \<union> addr ` set order) H"
    "textures (gpu v') = filter (\<lambda>t. t \<notin> insert (texture_id m) TR \<union>
        (\<lambda>s. texture_id (the (map_of H (addr s)))) ` set order) T"
    "framebuffers (gpu v') = filter (\<lambda>f. f \<notin> insert (framebuffer_id m) FR \<union>
        (\<lambda>s. framebuffer_id (the (map_of H (addr s)))) ` set order) F"
    by (elim exE conjE) (rule that)
  have e1: "insert (addr s) R \<union> addr ` set order = R \<union> addr ` set (s # order)"
    by auto
  have e2: "insert (texture_id m) TR \<union> (\<lambda>s. texture_id (the (map_of H (addr s)))) ` set order
            = TR \<union> (\<lambda>s. texture_id (the (map_of H (addr s)))) ` set (s # order)"
    using m by auto
  have e3: "insert (framebuffer_id m) FR \<union> (\<lambda>s. framebuffer_id (the (map_of H (addr s)))) ` set order
            = FR \<union> (\<lambda>s. framebuffer_id (the (map_of H (addr s)))) ` set (s # order)"
    using m by auto
  have "collect_all b v (s # order) = Some v'"
    using v1(1) v'(1) by simp
  moreover from v'(2) have "heap v' = filter (\<lambda>c. fst c \<notin> R \<union> addr ` set (s # order)) H"
    by (simp only: e1)
  moreover from v'(3) have "textures (gpu v') =
        filter (\<lambda>t. t \<notin> TR \<union> (\<lambda>s. texture_id (the (map_of H (addr s)))) ` set (s # order)) T"
    by (simp only: e2)
  moreover from v'(4) have "framebuffers (gpu v') =
        filter (\<lambda>f. f \<notin> FR \<union> (\<lambda>s. framebuffer_id (the (map_of H (addr s)))) ` set (s # order)) F"
    by (simp only: e3)
  ultimately show ?case by (intro exI conjI)
qed

lemma create_all_collect_all:
  assumes "create_all b w requests = Some (stores, w1)" and "mset order = mset stores"
  shows "length (textures (gpu w1)) = length (textures (gpu w)) + length requests \<and>
         length (framebuffers (gpu w1)) = length (framebuffers (gpu w)) + length requests \<and>
         (\<exists>w2. collect_all b w1 order = Some w2 \<and>
               textures (gpu w2) = textures (gpu w) \<and>
               framebuffers (gpu w2) = framebuffers (gpu w) \<and>
               live_objects w2 = live_objects w \<and> heap w2 = heap w)"
proof -
  from create_all_effect[OF assms(1)] obtain cells where cells:
    "length cells = length requests"
    "heap w1 = heap w @ cells"
    "textures (gpu w1) = textures (gpu w) @ map (\<lambda>c. texture_id (snd c)) cells"
    "framebuffers (gpu w1) = framebuffers (gpu w) @ map (\<lambda>c. framebuffer_id (snd c)) cells"
    "map addr stores = map fst cells"
    "\<forall>s\<in>set stores. is_framebuffer_store s"
    "distinct (map fst cells)" "fst ` set cells \<inter> fst ` set (heap w) = {}"
    "(\<lambda>c. texture_id (snd c)) ` set cells \<inter> set (textures (gpu w)) = {}"
    "(\<lambda>c. framebuffer_id (snd c)) ` set cells \<inter> set (framebuffers (gpu w)) = {}"
    "requests \<noteq> [] \<longrightarrow> is_initialized w1 \<and> (\<exists>table. gl_table w1 = Some table)"
    by (elim exE conjE) (rule that)
  have set_order: "set order = set stores"
    using assms(2) by (rule mset_eq_setD)
  have addrs: "addr ` set stores = fst ` set cells"
    using cells(5) by (metis list.set_map)
  have cell_of: "map_of (heap w1) (fst c) = Some (snd c)" if "c \<in> set cells" for c
    unfolding cells(2) using that cells(7,8) by (intro map_of_appended_cell) auto
  have meta: "\<exists>c\<in>set cells. addr s = fst c \<and> map_of (heap w1) (addr s) = Some (snd c)"
    if "s \<in> set stores" for s
  proof -
    from that have "addr s \<in> addr ` set stores" by (rule imageI)
    with addrs have "addr s \<in> fst ` set cells" by simp
    then obtain c where "c \<in> set cells" "addr s = fst c" by (rule imageE)
    with cell_of[of c] show ?thesis by auto
  qed
  have p1: "order \<noteq> [] \<longrightarrow> is_initialized w1 \<and> gl_table w1 = Some (the (gl_table w1))"
  proof
    assume "order \<noteq> []"
    with set_order have "stores \<noteq> []" by auto
    with cells(5,1) have "requests \<noteq> []" by (metis length_0_conv length_map)
    with cells(11) show "is_initialized w1 \<and> gl_table w1 = Some (the (gl_table w1))" by auto
  qed
  have p5: "distinct (map addr order)"
  proof -
    have "mset (map addr order) = mset (map addr stores)"
      using assms(2) by (metis mset_map)
    then have "distinct (map addr order) = distinct (map addr stores)"
      by (rule mset_eq_imp_distinct_iff)
    also have "\<dots> = distinct (map fst cells)"
      by (simp only: cells(5))
    finally show ?thesis using cells(7) by simp
  qed
  have p6: "\<forall>s\<in>set order. is_framebuffer_store s \<and> addr s \<notin> {} \<and>
              (\<exists>m. map_of (heap w1) (addr s) = Some m)"
  proof
    fix s assume "s \<in> set order"
    with set_order have s: "s \<in> set stores" by simp
    from meta[OF s] obtain m where "map_of (heap w1) (addr s) = Some m" by blast
    with s cells(6) show "is_framebuffer_store s \<and> addr s \<notin> {} \<and>
              (\<exists>m. map_of (heap w1) (addr s) = Some m)" by simp
  qed
  have p2: "heap w1 = filter (\<lambda>c. fst c \<notin> {}) (heap w1)" by simp
  have p3: "textures (gpu w1) = filter (\<lambda>t. t \<notin> {}) (textures (gpu w1))" by simp
  have p4: "framebuffers (gpu w1) = filter (\<lambda>f. f \<notin> {}) (framebuffers (gpu w1))" by simp
  from collect_all_effect[where b = b and v = w1 and R = "{}" and TR = "{}" and FR = "{}"
      and H = "heap w1" and T = "textures (gpu w1)" and F = "framebuffers (gpu w1)",
      OF p1 p2 p3 p4 p5 p6]
  obtain w2 where w2: "collect_all b w1 order = Some w2"
    "heap w2 = filter (\<lambda>c. fst c \<notin> {} \<union> addr ` set order) (heap w1)"
    "textures (gpu w2) = filter (\<lambda>t. t \<notin> {} \<union>
        (\<lambda>s. texture_id (the (map_of (heap w1) (addr s)))) ` set order) (textures (gpu w1))"
    "framebuffers (gpu w2) = filter (\<lambda>f. f \<notin> {} \<union>
        (\<lambda>s. framebuffer_id (the (map_of (heap w1) (addr s)))) ` set order) (framebuffers (gpu w1))"
    by (elim exE conjE) (rule that)
  have tids: "(\<lambda>s. texture_id (the (map_of (heap w1) (addr s)))) ` set order
                = (\<lambda>c. texture_id (snd c)) ` set cells" (is "?L = ?R")
  proof
    show "?L \<subseteq> ?R" using meta set_order by force
    show "?R \<subseteq> ?L"
    proof
      fix x assume "x \<in> ?R"
      then obtain c where c: "c \<in> set cells" "x = texture_id (snd c)" by auto
      from c(1) have "fst c \<in> fst ` set cells" by (rule imageI)
      with addrs have "fst c \<in> addr ` set stores" by simp
      then obtain s where "fst c = addr s" "s \<in> set stores" by (rule imageE)
      with c cell_of[OF c(1)] set_order show "x \<in> ?L" by force
    qed
  qed
  have fids: "(\<lambda>s. framebuffer_id (the (map_of (heap w1) (addr s)))) ` set order
                = (\<lambda>c. framebuffer_id (snd c)) ` set cells" (is "?L = ?R")
  proof
    show "?L \<subseteq> ?R" using meta set_order by force
    show "?R \<subseteq> ?L"
    proof
      fix x assume "x \<in> ?R"
      then obtain c where c: "c \<in> set cells" "x = framebuffer_id (snd c)" by auto
      from c(1) have "fst c \<in> fst ` set cells" by (rule imageI)
      with addrs have "fst c \<in> addr ` set stores" by simp
      then obtain s where "fst c = addr s" "s \<in> set stores" by (rule imageE)
      with c cell_of[OF c(1)] set_order show "x \<in> ?L" by force
    qed
  qed
  have h: "heap w2 = heap w"
    using filter_out_appended[of fst cells "fst ` set cells" "heap w"] cells(8) addrs set_order
    by (simp add: w2(2) cells(2))
  have t: "textures (gpu w2) = textures (gpu w)"
    using filter_out_appended[of "\<lambda>x. x" "map (\<lambda>c. texture_id (snd c)) cells"
            "(\<lambda>c. texture_id (snd c)) ` set cells" "textures (gpu w)"] cells(9)
    by (simp add: w2(3) cells(3) tids)
  have f: "framebuffers (gpu w2) = framebuffers (gpu w)"
    using filter_out_appended[of "\<lambda>x. x" "map (\<lambda>c. framebuffer_id (snd c)) cells"
            "(\<lambda>c. framebuffer_id (snd c)) ` set cells" "framebuffers (gpu w)"] cells(10)
    by (simp add: w2(4) cells(4) fids)
  show ?thesis
    using w2(1) h t f cells(1,3,4) by (simp add: live_objects_def)
qed

subsection \<open>The concrete worlds\<close>

lemma ready_world_facts:
  "is_initialized ready_world" "consistent ready_world"
  "heap ready_world = []" "format ready_world = GL_BGRA8_EXT"
  "textures (gpu ready_world) = []" "framebuffers (gpu ready_world) = []"
  "gl_table ready_world = Some (resolved good_env)" "calls ready_world = []"
  by (simp_all add: ready_world_def new_world_def consistent_def no_objects_def)

lemma first_creation:
  "CreateBackingStore b ready_world good_env (a_config 800 600) blank_store
     = Inr (True, framebuffer_store GL_BGRA8_EXT 1 1, created_world)"
  by (simp add: CreateBackingStore_def allocate_def Let_def gl_def example_defs created_world_def
        unused_name_def set_parameter_simps gl_exec_BindFramebuffer_simps default_texture_def
        narrow_examples)

lemma wide_creation:
  "CreateBackingStore b ready_world good_env (a_config 2147483648 600) blank_store
     = Inr (True, framebuffer_store GL_BGRA8_EXT 1 1, wide_world)"
  by (simp add: CreateBackingStore_def allocate_def Let_def gl_def example_defs wide_world_def
        unused_name_def set_parameter_simps gl_exec_BindFramebuffer_simps default_texture_def
        narrow_examples)

lemma created_world_facts:
  "is_initialized created_world" "consistent created_world"
  "heap created_world = [(1, \<lparr>framebuffer_id = 1, texture_id = 1\<rparr>)]"
  "format created_world = GL_BGRA8_EXT"
  "textures (gpu created_world) = [1]" "framebuffers (gpu created_world) = [1]"
  by (simp_all add: created_world_def ready_world_def new_world_def consistent_def)

lemma two_creations:
  "\<exists>stores w1. create_all b new_world
      [(good_env, a_config 800 600, blank_store), (good_env, a_config 1 1, blank_store)]
      = Some (stores, w1)"
proof -
  have g: "MakeCurrent good_env \<and> IsValid (resolved good_env)" by (simp add: good_env_def)
  have n: "consistent new_world" by (simp add: consistent_def new_world_def)
  from CreateBackingStore_returns[OF n, of good_env b "a_config 800 600" blank_store] g
  obtain s1 w1 where c1:
    "CreateBackingStore b new_world good_env (a_config 800 600) blank_store = Inr (True, s1, w1)"
    "is_initialized w1" "consistent w1"
    by blast
  from CreateBackingStore_returns[OF c1(3), of good_env b "a_config 1 1" blank_store] c1(2)
  obtain s2 w2 where c2:
    "CreateBackingStore b w1 good_env (a_config 1 1) blank_store = Inr (True, s2, w2)"
    by blast
  show ?thesis by (simp add: c1(1) c2)
qed

lemma first_present:
  "\<exists>w'. Present b ready_world good_env [a_layer (framebuffer_store GL_BGRA8_EXT 1 1) 800 600]
          = Inr (True, w')"
proof -
  have "b = NDEBUG \<or>
        (is_initialized ready_world \<and>
         layer_type (a_layer (framebuffer_store GL_BGRA8_EXT 1 1) 800 600)
           = kFlutterLayerContentTypeBackingStore \<and>
         is_framebuffer_store
           (backing_store (a_layer (framebuffer_store GL_BGRA8_EXT 1 1) 800 600)) \<and>
         [] = ([] :: FlutterLayer list))"
    by (simp add: ready_world_facts a_layer_def framebuffer_store_def is_framebuffer_store_def)
  from Present_checks_pass[OF this ready_world_facts(7), of good_env a_view]
  show ?thesis by (simp add: good_env_def a_view_def)
qed

lemma first_collection:
  "\<exists>w'. CollectBackingStore b created_world (framebuffer_store GL_BGRA8_EXT 1 1) = Inr (True, w')"
  using CollectBackingStore_returns[of created_world "resolved good_env"
          "framebuffer_store GL_BGRA8_EXT 1 1" "\<lparr>framebuffer_id = 1, texture_id = 1\<rparr>"]
  by (simp add: created_world_facts is_framebuffer_store_def framebuffer_store_def
        created_world_def ready_world_def)

subsection \<open>Consistency is kept\<close>

text \<open>
  A newly constructed compositor is consistent, and every call that returns leaves a
  consistent world consistent.
\<close>

lemma consistent_new_world: "consistent new_world"
  by (simp add: consistent_def new_world_def)

lemma consistent_Initialize:
  "consistent w \<Longrightarrow> \<not> is_initialized w \<Longrightarrow> Initialize b w env = Inr (ok, w') \<Longrightarrow>
   consistent w'"
  by (cases "gl_table w")
     (auto simp: consistent_def Initialize_def Let_def called_def split: if_splits)

lemma consistent_CreateBackingStore:
  assumes "consistent w" and "CreateBackingStore b w env config result = Inr (ok, store, w')"
  shows "consistent w'"
proof (cases ok)
  case True
  with assms(2) CreateBackingStore_stays_initialized[of b w env config result store w']
  show ?thesis by (auto simp: consistent_def)
next
  case False
  have ni: "\<not> is_initialized w"
    using assms(2) False allocate_effect(1)[of w config result ok store w']
    by (auto simp: CreateBackingStore_initialized)
  with assms(2) False obtain wi where "Initialize b w env = Inr (False, wi)" "w' = wi"
    using allocate_effect(1)
    by (fastforce simp: CreateBackingStore_def split: sum.splits if_splits)
  with consistent_Initialize[OF assms(1) ni] show ?thesis by simp
qed

lemma consistent_CollectBackingStore:
  "consistent w \<Longrightarrow> CollectBackingStore b w store = Inr (ok, w') \<Longrightarrow> consistent w'"
  using CollectBackingStore_effect(4,5)[of b w store ok w'] by (simp add: consistent_def)

lemma consistent_Present:
  "consistent w \<Longrightarrow> Present b w env layers = Inr (ok, w') \<Longrightarrow> consistent w'"
  using Present_keeps(1,2)[of b w env layers ok w'] by (simp add: consistent_def)

section \<open>The claims\<close>

subsection \<open>C1\<close>

text \<open>
  Claim C1. For every capability set, the format negotiator returns BGRA8 when the extension
  \<^verbatim>\<open>GL_EXT_texture_format_BGRA8888\<close> is present; otherwise BGRA8 when
  \<^verbatim>\<open>GL_APPLE_texture_format_BGRA8888\<close> is present and the version is at least 3.0, which
  for a version (major, minor) means that major is at least 3; otherwise RGBA8. The two
  formats are different values.
\<close>

theorem GetSupportedTextureFormat_policy: "GetSupportedTextureFormat d =
     (if ''GL_EXT_texture_format_BGRA8888'' \<in> extensions d then GL_BGRA8_EXT
      else if ''GL_APPLE_texture_format_BGRA8888'' \<in> extensions d \<and> 3 \<le> major_version (gl_version d)
      then GL_BGRA8_EXT else GL_RGBA8) \<and> GL_BGRA8_EXT \<noteq> GL_RGBA8"
  by (auto simp: GetSupportedTextureFormat_def HasExtension_def GetGlVersion_def IsAtLeast_def GL_BGRA8_EXT_def GL_RGBA8_def)

theorem GetSupportedTextureFormat_table:
  "GetSupportedTextureFormat (gles_with [''GL_EXT_texture_format_BGRA8888''] 2 0) = GL_BGRA8_EXT \<and>
   GetSupportedTextureFormat (gles_with [''GL_APPLE_texture_format_BGRA8888''] 3 0) = GL_BGRA8_EXT \<and>
   GetSupportedTextureFormat (gles_with [''GL_APPLE_texture_format_BGRA8888''] 2 1) = GL_RGBA8 \<and>
   GetSupportedTextureFormat (gles_with [''GL_OES_rgb8_rgba8''] 3 2) = GL_RGBA8"
  using GetSupportedTextureFormat_policy[of "gles_with [''GL_EXT_texture_format_BGRA8888''] 2 0"]
        GetSupportedTextureFormat_policy[of "gles_with [''GL_APPLE_texture_format_BGRA8888''] 3 0"]
        GetSupportedTextureFormat_policy[of "gles_with [''GL_APPLE_texture_format_BGRA8888''] 2 1"]
        GetSupportedTextureFormat_policy[of "gles_with [''GL_OES_rgb8_rgba8''] 3 2"]
  by (simp add: gles_with_def)

subsection \<open>C2\<close>

text \<open>
  Claim C2. In every build, let N calls of \<^verbatim>\<open>CreateBackingStore\<close> all return true,
  and let the N descriptors they filled in be handed to \<^verbatim>\<open>CollectBackingStore\<close> in any
  order. Then the creations add exactly N textures and N framebuffers, every collection
  returns true, and afterwards the live textures and the live framebuffers are those from
  before the first creation, so the count of live GPU objects is back at its baseline; the
  metadata heap is back as well. Call by call: a creation that returns true adds one
  texture and one framebuffer, both new, and records them in the metadata its descriptor
  points to; a collection that returns true deletes the texture and the framebuffer
  recorded in the metadata its descriptor points to, and frees the metadata.
\<close>

theorem create_collect_balance:
  "(create_all b w requests = Some (stores, w1) \<and> mset order = mset stores \<longrightarrow>
      length (textures (gpu w1)) = length (textures (gpu w)) + length requests \<and>
      length (framebuffers (gpu w1)) = length (framebuffers (gpu w)) + length requests \<and>
      (\<exists>w2. collect_all b w1 order = Some w2 \<and>
            textures (gpu w2) = textures (gpu w) \<and>
            framebuffers (gpu w2) = framebuffers (gpu w) \<and>
            live_objects w2 = live_objects w \<and> heap w2 = heap w)) \<and>
   (CreateBackingStore b v env config result = Inr (True, created, v') \<longrightarrow>
      (\<exists>fb texture.
         map_of (heap v') (addr created) = Some \<lparr>framebuffer_id = fb, texture_id = texture\<rparr> \<and>
         name (framebuffer (open_gl created)) = fb \<and>
         textures (gpu v') = textures (gpu v) @ [texture] \<and> texture \<notin> set (textures (gpu v)) \<and>
         framebuffers (gpu v') = framebuffers (gpu v) @ [fb] \<and>
         fb \<notin> set (framebuffers (gpu v)))) \<and>
   (CollectBackingStore b u collected = Inr (True, u') \<longrightarrow>
      (\<exists>fb texture.
         map_of (heap u) (addr collected) = Some \<lparr>framebuffer_id = fb, texture_id = texture\<rparr> \<and>
         textures (gpu u') = removeAll texture (textures (gpu u)) \<and>
         framebuffers (gpu u') = removeAll fb (framebuffers (gpu u)) \<and>
         map_of (heap u') (addr collected) = None))"
  using create_all_collect_all[of b w requests stores w1 order]
        create_metadata[of b v env config result created v']
        collect_metadata[of b u collected u']
  by (intro conjI impI) simp_all

theorem create_collect_balance_witness:
  "(\<exists>stores w1 w2.
     create_all debug_checks new_world
       [(good_env, a_config 800 600, blank_store), (good_env, a_config 1 1, blank_store)]
       = Some (stores, w1) \<and>
     length (textures (gpu w1)) = 2 \<and> length (framebuffers (gpu w1)) = 2 \<and>
     collect_all debug_checks w1 (rev stores) = Some w2 \<and>
     textures (gpu w2) = [] \<and> framebuffers (gpu w2) = [] \<and> live_objects w2 = 0) \<and>
   (\<exists>fb texture.
      map_of (heap created_world) 1 = Some \<lparr>framebuffer_id = fb, texture_id = texture\<rparr> \<and>
      textures (gpu created_world) = [texture] \<and> framebuffers (gpu created_world) = [fb]) \<and>
   (\<exists>w'. CollectBackingStore debug_checks created_world (framebuffer_store GL_BGRA8_EXT 1 1) = Inr (True, w') \<and>
      textures (gpu w') = [] \<and> framebuffers (gpu w') = [] \<and> map_of (heap w') 1 = None)"
proof (intro conjI)
  from two_creations obtain stores w1 where c: "create_all debug_checks new_world
      [(good_env, a_config 800 600, blank_store), (good_env, a_config 1 1, blank_store)]
      = Some (stores, w1)" by blast
  have m: "mset (rev stores) = mset stores" by simp
  have n: "textures (gpu new_world) = []" "framebuffers (gpu new_world) = []"
    "live_objects new_world = 0"
    by (simp_all add: new_world_def no_objects_def live_objects_def)
  have "length (textures (gpu w1)) = length (textures (gpu new_world)) + 2 \<and>
      length (framebuffers (gpu w1)) = length (framebuffers (gpu new_world)) + 2 \<and>
      (\<exists>w2. collect_all debug_checks w1 (rev stores) = Some w2 \<and>
            textures (gpu w2) = textures (gpu new_world) \<and>
            framebuffers (gpu w2) = framebuffers (gpu new_world) \<and>
            live_objects w2 = live_objects new_world \<and> heap w2 = heap new_world)"
    using create_collect_balance[of debug_checks new_world "[(good_env, a_config 800 600, blank_store),
                (good_env, a_config 1 1, blank_store)]" stores w1 "rev stores",
             THEN conjunct1, THEN mp, OF conjI[OF c m]]
    by simp
  then have "length (textures (gpu w1)) = 2 \<and> length (framebuffers (gpu w1)) = 2 \<and>
      (\<exists>w2. collect_all debug_checks w1 (rev stores) = Some w2 \<and>
            textures (gpu w2) = [] \<and> framebuffers (gpu w2) = [] \<and> live_objects w2 = 0)"
    unfolding n by auto
  with c show "\<exists>stores w1 w2.
     create_all debug_checks new_world
       [(good_env, a_config 800 600, blank_store), (good_env, a_config 1 1, blank_store)]
       = Some (stores, w1) \<and>
     length (textures (gpu w1)) = 2 \<and> length (framebuffers (gpu w1)) = 2 \<and>
     collect_all debug_checks w1 (rev stores) = Some w2 \<and>
     textures (gpu w2) = [] \<and> framebuffers (gpu w2) = [] \<and> live_objects w2 = 0"
    by blast
next
  from create_collect_balance[of debug_checks _ _ _ _ _ ready_world good_env "a_config 800 600" blank_store
            "framebuffer_store GL_BGRA8_EXT 1 1" created_world,
          THEN conjunct2, THEN conjunct1, THEN mp, OF first_creation]
  show "\<exists>fb texture.
      map_of (heap created_world) 1 = Some \<lparr>framebuffer_id = fb, texture_id = texture\<rparr> \<and>
      textures (gpu created_world) = [texture] \<and> framebuffers (gpu created_world) = [fb]"
    by (simp add: ready_world_facts framebuffer_store_def) blast
next
  from first_collection obtain w' where
    c: "CollectBackingStore debug_checks created_world (framebuffer_store GL_BGRA8_EXT 1 1) = Inr (True, w')"
    by blast
  from create_collect_balance[of debug_checks _ _ _ _ _ _ _ _ _ _ _ created_world
            "framebuffer_store GL_BGRA8_EXT 1 1" w',
          THEN conjunct2, THEN conjunct2, THEN mp, OF c]
  have "textures (gpu w') = [] \<and> framebuffers (gpu w') = [] \<and> map_of (heap w') 1 = None"
    by (auto simp: created_world_facts framebuffer_store_def)
  with c show "\<exists>w'. CollectBackingStore debug_checks created_world (framebuffer_store GL_BGRA8_EXT 1 1) = Inr (True, w') \<and>
      textures (gpu w') = [] \<and> framebuffers (gpu w') = [] \<and> map_of (heap w') 1 = None"
    by blast
qed

subsection \<open>C3\<close>

text \<open>
  Claim C3. In every build, when \<^verbatim>\<open>CreateBackingStore\<close> is called on an uninitialized
  compositor it runs \<^verbatim>\<open>Initialize\<close> first: the first call it makes is the context
  acquisition of \<^verbatim>\<open>Initialize\<close>, and it goes on from the world \<^verbatim>\<open>Initialize\<close>
  leaves. If initialization fails (the context cannot be made current or the table is
  invalid) it returns false, leaves the descriptor as it was, allocates no GPU object and
  makes no GL call. If initialization succeeds it allocates: it returns true with one
  texture and one framebuffer more, and all calls after the context acquisition are GL
  calls.
\<close>

theorem CreateBackingStore_lazy_initialization:
  assumes "\<not> is_initialized w"
  shows "if MakeCurrent env \<and> IsValid (resolved env)
         then \<exists>wi store w' gl_calls.
                Initialize b w env = Inr (True, wi) \<and>
                CreateBackingStore b w env config result = Inr (True, store, w') \<and>
                allocate wi config result = Inr (True, store, w') \<and>
                is_initialized w' \<and>
                live_objects w' = live_objects w + 2 \<and>
                calls w' = calls w @ MakeCurrent_called # map GL gl_calls
         else \<exists>wi.
                Initialize b w env = Inr (False, wi) \<and>
                CreateBackingStore b w env config result = Inr (False, result, wi) \<and>
                \<not> is_initialized wi \<and>
                gpu wi = gpu w \<and> heap wi = heap w \<and>
                calls wi = calls w @ [MakeCurrent_called]"
proof (cases "MakeCurrent env \<and> IsValid (resolved env)")
  case True
  define wi where "wi = w\<lparr>calls := calls w @ [MakeCurrent_called], gl_table := Some (resolved env),
       format := GetSupportedTextureFormat (GetDescription (resolved env)),
       is_initialized := True\<rparr>"
  have init: "Initialize b w env = Inr (True, wi)"
    using assms True by (simp add: Initialize_success wi_def)
  obtain store w' where alloc: "allocate wi config result = Inr (True, store, w')"
    using allocate_returns[of wi "resolved env" config result] by (auto simp: wi_def)
  have "CreateBackingStore b w env config result = Inr (True, store, w')"
    using CreateBackingStore_initializes[OF assms init] alloc by simp
  moreover have "is_initialized w'"
    using allocate_effect(3)[OF alloc] by (simp add: wi_def)
  moreover have "live_objects w' = live_objects w + 2"
    using live_objects_allocate[OF alloc] by (simp add: wi_def live_objects_def)
  moreover have "\<exists>gl_calls. calls w' = calls w @ MakeCurrent_called # map GL gl_calls"
  proof -
    obtain gl_calls where "calls w' = calls wi @ map GL gl_calls"
      using allocate_calls[OF alloc] by blast
    then have "calls w' = calls w @ MakeCurrent_called # map GL gl_calls"
      by (simp add: wi_def)
    then show ?thesis by blast
  qed
  ultimately show ?thesis using True init alloc by auto
next
  case False
  then show ?thesis
    using assms Initialize_failure[OF assms False] 
    by (auto simp: CreateBackingStore_def)
qed

theorem CreateBackingStore_lazy_initialization_witness:
  "(\<exists>wi. CreateBackingStore debug_checks new_world (good_env\<lparr>MakeCurrent := False\<rparr>) (a_config 800 600) blank_store
            = Inr (False, blank_store, wi) \<and>
         \<not> is_initialized wi \<and> gpu wi = gpu new_world \<and> calls wi = [MakeCurrent_called]) \<and>
   (\<exists>store w' gl_calls. CreateBackingStore debug_checks new_world good_env (a_config 800 600) blank_store
            = Inr (True, store, w') \<and>
         is_initialized w' \<and> live_objects w' = 2 \<and>
         calls w' = MakeCurrent_called # map GL gl_calls)"
proof -
  have n: "\<not> is_initialized new_world" "calls new_world = []" "live_objects new_world = 0"
    by (simp_all add: new_world_def live_objects_def no_objects_def)
  have "\<exists>wi. Initialize debug_checks new_world (good_env\<lparr>MakeCurrent := False\<rparr>) = Inr (False, wi) \<and>
          CreateBackingStore debug_checks new_world (good_env\<lparr>MakeCurrent := False\<rparr>) (a_config 800 600) blank_store
            = Inr (False, blank_store, wi) \<and>
          \<not> is_initialized wi \<and> gpu wi = gpu new_world \<and> heap wi = heap new_world \<and>
          calls wi = calls new_world @ [MakeCurrent_called]"
    using CreateBackingStore_lazy_initialization[OF n(1), where b = debug_checks and env = "good_env\<lparr>MakeCurrent := False\<rparr>"
            and config = "a_config 800 600" and result = blank_store]
    by simp
  moreover have "\<exists>wi store w' gl_calls.
          Initialize debug_checks new_world good_env = Inr (True, wi) \<and>
          CreateBackingStore debug_checks new_world good_env (a_config 800 600) blank_store = Inr (True, store, w') \<and>
          allocate wi (a_config 800 600) blank_store = Inr (True, store, w') \<and>
          is_initialized w' \<and> live_objects w' = live_objects new_world + 2 \<and>
          calls w' = calls new_world @ MakeCurrent_called # map GL gl_calls"
    using CreateBackingStore_lazy_initialization[OF n(1), where b = debug_checks and env = good_env
            and config = "a_config 800 600" and result = blank_store]
    by (simp add: good_env_def)
  ultimately show ?thesis
    unfolding n(2,3) by (elim exE conjE) (intro conjI exI, simp_all)
qed

subsection \<open>C4\<close>

text \<open>
  A layer 2147483648 (2^31) wide and 600 high, presented on an initialized compositor
  with a view attached: the view is asked for a framebuffer 2147483648 wide, but the
  corner of the blit rectangle is the \<^verbatim>\<open>GLint\<close> \<^verbatim>\<open>0x80000000\<close>, which is
  -2147483648. The rectangle copied is not (0,0)-(width,height).
\<close>

theorem Present_narrows_size:
  "Present debug_checks ready_world good_env
     [a_layer (framebuffer_store GL_BGRA8_EXT 1 1) 2147483648 600]
   = Inr (True,
       ready_world
         \<lparr>gpu := (gpu ready_world)\<lparr>read_framebuffer_binding := 1, draw_framebuffer_binding := 7\<rparr>,
          calls :=
            [GetFrameBufferId_called 2147483648 600, MakeCurrent_called,
             GL (BindFramebuffer GL_READ_FRAMEBUFFER 1),
             GL (BindFramebuffer GL_DRAW_FRAMEBUFFER 7),
             GL (BlitFramebuffer 0 0 0x80000000 600 0 0 0x80000000 600
                   GL_COLOR_BUFFER_BIT GL_NEAREST),
             SwapBuffers_called]\<rparr>) \<and>
   sint (0x80000000 :: 32 word) = - 2147483648 \<and>
   unat (2147483648 :: 64 word) = 2147483648"
proof -
  have "debug_checks = NDEBUG \<or>
        (is_initialized ready_world \<and>
         layer_type (a_layer (framebuffer_store GL_BGRA8_EXT 1 1) 2147483648 600)
           = kFlutterLayerContentTypeBackingStore \<and>
         is_framebuffer_store
           (backing_store (a_layer (framebuffer_store GL_BGRA8_EXT 1 1) 2147483648 600)) \<and>
         [] = ([] :: FlutterLayer list))"
    by (simp add: ready_world_facts a_layer_def framebuffer_store_def is_framebuffer_store_def)
  from Present_checks_pass[OF this ready_world_facts(7), of good_env a_view]
  show ?thesis
    by (simp add: good_env_def a_view_def a_layer_def framebuffer_store_def narrow_examples
          ready_world_facts)
qed

text \<open>
  Claim C4, as amended. For a \<^verbatim>\<open>Present\<close> call with one framebuffer layer of size
  (width, height) and an attached view, on an initialized compositor, in every build: the
  view is asked for its framebuffer at width and height narrowed to \<^verbatim>\<open>size_t\<close>, then
  the context is acquired, and when that succeeds the layer's framebuffer is bound for
  reading, the view's for drawing, and one blit copies (0,0)-(w,h) to (0,0)-(w,h), where w
  and h are width and height narrowed to \<^verbatim>\<open>GLint\<close>, with mask
  \<^verbatim>\<open>GL_COLOR_BUFFER_BIT\<close> and filter \<^verbatim>\<open>GL_NEAREST\<close>, followed by the swap; the
  call returns what the swap returns, and false when the context is not acquired. Width
  and height are never exchanged. When width and height are whole numbers below
  2^31, the narrowed values are width and height themselves, so the view is asked at
  exactly (width, height) and the blit rectangle is exactly (0,0)-(width,height).
\<close>

theorem Present_geometry:
  assumes "is_initialized w" and "consistent w"
    and "layer_type layer = kFlutterLayerContentTypeBackingStore"
    and "is_framebuffer_store (backing_store layer)"
    and "layer_size layer = \<lparr>width = wd, height = ht\<rparr>"
    and "view env = Some v"
  shows "(\<exists>w'. Present b w env [layer] = Inr (MakeCurrent env \<and> SwapBuffers v, w') \<and>
     calls w' = calls w @
       GetFrameBufferId_called (to_size_t wd) (to_size_t ht) # MakeCurrent_called #
       (if MakeCurrent env
        then [GL (BindFramebuffer GL_READ_FRAMEBUFFER (name (framebuffer (open_gl (backing_store layer))))),
              GL (BindFramebuffer GL_DRAW_FRAMEBUFFER
                    (GetFrameBufferId v (to_size_t wd) (to_size_t ht))),
              GL (BlitFramebuffer 0 0 (to_int wd) (to_int ht) 0 0 (to_int wd) (to_int ht)
                    GL_COLOR_BUFFER_BIT GL_NEAREST),
              SwapBuffers_called]
        else [])) \<and>
     (wd = real m \<and> ht = real n \<and> m < 2 ^ 31 \<and> n < 2 ^ 31 \<longrightarrow>
        unat (to_size_t wd) = m \<and> unat (to_size_t ht) = n \<and>
        sint (to_int wd) = int m \<and> sint (to_int ht) = int n)"
proof -
  from assms(1,2) obtain table where t: "gl_table w = Some table"
    by (auto simp: consistent_def)
  have "b = NDEBUG \<or>
           (is_initialized w \<and> layer_type layer = kFlutterLayerContentTypeBackingStore \<and>
            is_framebuffer_store (backing_store layer) \<and> [] = ([] :: FlutterLayer list))"
    using assms(1,3,4) by simp
  from Present_checks_pass[OF this t assms(6)] assms(5)
  have "\<exists>w'. Present b w env [layer] = Inr (MakeCurrent env \<and> SwapBuffers v, w') \<and>
     calls w' = calls w @
       GetFrameBufferId_called (to_size_t wd) (to_size_t ht) # MakeCurrent_called #
       (if MakeCurrent env
        then [GL (BindFramebuffer GL_READ_FRAMEBUFFER (name (framebuffer (open_gl (backing_store layer))))),
              GL (BindFramebuffer GL_DRAW_FRAMEBUFFER
                    (GetFrameBufferId v (to_size_t wd) (to_size_t ht))),
              GL (BlitFramebuffer 0 0 (to_int wd) (to_int ht) 0 0 (to_int wd) (to_int ht)
                    GL_COLOR_BUFFER_BIT GL_NEAREST),
              SwapBuffers_called]
        else [])"
    by simp
  moreover have "unat (to_size_t wd) = m \<and> unat (to_size_t ht) = n \<and>
        sint (to_int wd) = int m \<and> sint (to_int ht) = int n"
    if "wd = real m \<and> ht = real n \<and> m < 2 ^ 31 \<and> n < 2 ^ 31"
  proof -
    from that have "m < 2 ^ 64" "n < 2 ^ 64" by simp_all
    with that show ?thesis
      by (simp add: to_size_t_whole to_int_whole unat_whole_size_t sint_whole)
  qed
  ultimately show ?thesis by blast
qed

theorem Present_geometry_witness:
  "(\<exists>w'. Present debug_checks ready_world good_env
             [a_layer (framebuffer_store GL_BGRA8_EXT 1 1) 800 600]
           = Inr (True, w') \<and>
        calls w' =
          [GetFrameBufferId_called 800 600, MakeCurrent_called,
           GL (BindFramebuffer GL_READ_FRAMEBUFFER 1),
           GL (BindFramebuffer GL_DRAW_FRAMEBUFFER 7),
           GL (BlitFramebuffer 0 0 800 600 0 0 800 600 GL_COLOR_BUFFER_BIT GL_NEAREST),
           SwapBuffers_called]) \<and>
   unat (to_size_t 800) = 800 \<and> unat (to_size_t 600) = 600 \<and>
   sint (to_int 800) = 800 \<and> sint (to_int 600) = 600 \<and>
   (\<exists>w'. Present NDEBUG ready_world (good_env\<lparr>MakeCurrent := False\<rparr>)
             [a_layer (framebuffer_store GL_BGRA8_EXT 1 1) 1920 1080]
           = Inr (False, w') \<and>
        calls w' = [GetFrameBufferId_called 1920 1080, MakeCurrent_called])"
  using Present_geometry[where b = debug_checks and w = ready_world
             and layer = "a_layer (framebuffer_store GL_BGRA8_EXT 1 1) 800 600"
             and wd = 800 and ht = 600 and env = good_env and v = a_view and m = 800 and n = 600]
        Present_geometry[where b = NDEBUG and w = ready_world
             and layer = "a_layer (framebuffer_store GL_BGRA8_EXT 1 1) 1920 1080"
             and wd = 1920 and ht = 1080 and env = "good_env\<lparr>MakeCurrent := False\<rparr>"
             and v = a_view and m = 1920 and n = 1080]
  by (simp add: ready_world_facts good_env_def a_view_def a_layer_def framebuffer_store_def
        is_framebuffer_store_def narrow_examples)

subsection \<open>C5\<close>

text \<open>
  Claim C5. In a build with the debug checks, \<^verbatim>\<open>Initialize\<close> on an initialized
  compositor stops at its assertion with the world untouched: no context acquisition, no
  negotiation. In every build: on an uninitialized compositor it succeeds exactly when the
  context can be made current and the resolved table is valid; then the table is kept, the
  format is the negotiated one and the compositor is initialized. When it fails the world
  is as before except for the attempted context acquisition: still uninitialized, no table
  kept, format not set, and a later call with a willing surrounding succeeds. Once
  initialized, a compositor stays initialized, with the same table and the same format,
  through every call that returns; and \<^verbatim>\<open>CreateBackingStore\<close>, the only caller of
  \<^verbatim>\<open>Initialize\<close>, then makes GL calls only, so it neither acquires the context nor
  negotiates again.
\<close>

theorem Initialize_state_machine:
  "(is_initialized w \<longrightarrow> Initialize debug_checks w env = Inl (FML_DCHECK_failed, w)) \<and>
   (\<not> is_initialized w \<and> consistent w \<longrightarrow>
      (if MakeCurrent env \<and> IsValid (resolved env)
       then Initialize b w env = Inr (True,
              w\<lparr>calls := calls w @ [MakeCurrent_called], gl_table := Some (resolved env),
                format := GetSupportedTextureFormat (GetDescription (resolved env)),
                is_initialized := True\<rparr>)
       else Initialize b w env = Inr (False, w\<lparr>calls := calls w @ [MakeCurrent_called]\<rparr>) \<and>
            (\<forall>env'. MakeCurrent env' \<and> IsValid (resolved env') \<longrightarrow>
               (\<exists>w'. Initialize b (w\<lparr>calls := calls w @ [MakeCurrent_called]\<rparr>) env'
                        = Inr (True, w') \<and> is_initialized w')))) \<and>
   (is_initialized w \<longrightarrow>
      (\<forall>config result ok store w'.
          CreateBackingStore b w env config result = Inr (ok, store, w') \<longrightarrow>
            is_initialized w' \<and> gl_table w' = gl_table w \<and> format w' = format w \<and>
            (\<exists>gl_calls. calls w' = calls w @ map GL gl_calls)) \<and>
      (\<forall>store ok w'.
          CollectBackingStore b w store = Inr (ok, w') \<longrightarrow>
            is_initialized w' \<and> gl_table w' = gl_table w \<and> format w' = format w) \<and>
      (\<forall>layers ok w'.
          Present b w env layers = Inr (ok, w') \<longrightarrow>
            is_initialized w' \<and> gl_table w' = gl_table w \<and> format w' = format w))"
proof (intro conjI impI)
  assume "is_initialized w"
  then show "Initialize debug_checks w env = Inl (FML_DCHECK_failed, w)"
    by (rule Initialize_guard)
next
  assume a: "\<not> is_initialized w \<and> consistent w"
  then have none: "gl_table w = None" by (cases "gl_table w") (auto simp: consistent_def)
  show "if MakeCurrent env \<and> IsValid (resolved env)
       then Initialize b w env = Inr (True,
              w\<lparr>calls := calls w @ [MakeCurrent_called], gl_table := Some (resolved env),
                format := GetSupportedTextureFormat (GetDescription (resolved env)),
                is_initialized := True\<rparr>)
       else Initialize b w env = Inr (False, w\<lparr>calls := calls w @ [MakeCurrent_called]\<rparr>) \<and>
            (\<forall>env'. MakeCurrent env' \<and> IsValid (resolved env') \<longrightarrow>
               (\<exists>w'. Initialize b (w\<lparr>calls := calls w @ [MakeCurrent_called]\<rparr>) env'
                        = Inr (True, w') \<and> is_initialized w'))"
  proof (cases "MakeCurrent env \<and> IsValid (resolved env)")
    case True
    with a show ?thesis by (simp add: Initialize_success)
  next
    case False
    have "Initialize b w env = Inr (False, w\<lparr>calls := calls w @ [MakeCurrent_called]\<rparr>)"
      using a none Initialize_failure[OF _ False, of w] by auto
    moreover have "\<exists>w'. Initialize b (w\<lparr>calls := calls w @ [MakeCurrent_called]\<rparr>) env'
                        = Inr (True, w') \<and> is_initialized w'"
      if "MakeCurrent env' \<and> IsValid (resolved env')" for env'
      using a that by (simp add: Initialize_success)
    ultimately show ?thesis using False by simp
  qed
next
  assume i: "is_initialized w"
  show "\<forall>config result ok store w'.
          CreateBackingStore b w env config result = Inr (ok, store, w') \<longrightarrow>
            is_initialized w' \<and> gl_table w' = gl_table w \<and> format w' = format w \<and>
            (\<exists>gl_calls. calls w' = calls w @ map GL gl_calls)"
    using CreateBackingStore_ready_keeps[OF i] by blast
  show "\<forall>store ok w'.
          CollectBackingStore b w store = Inr (ok, w') \<longrightarrow>
            is_initialized w' \<and> gl_table w' = gl_table w \<and> format w' = format w"
    using CollectBackingStore_effect(4,5,6) i by metis
  show "\<forall>layers ok w'.
          Present b w env layers = Inr (ok, w') \<longrightarrow>
            is_initialized w' \<and> gl_table w' = gl_table w \<and> format w' = format w"
    using Present_keeps(1,2,3) i by metis
qed

theorem Initialize_state_machine_witness:
  "Initialize debug_checks ready_world good_env = Inl (FML_DCHECK_failed, ready_world) \<and>
   Initialize debug_checks new_world (good_env\<lparr>MakeCurrent := False\<rparr>)
     = Inr (False, new_world\<lparr>calls := [MakeCurrent_called]\<rparr>) \<and>
   (\<exists>w'. Initialize debug_checks (new_world\<lparr>calls := [MakeCurrent_called]\<rparr>) good_env = Inr (True, w') \<and>
         is_initialized w') \<and>
   Initialize debug_checks new_world good_env
     = Inr (True, new_world\<lparr>calls := [MakeCurrent_called], gl_table := Some (resolved good_env),
                   format := GL_BGRA8_EXT, is_initialized := True\<rparr>) \<and>
   is_initialized created_world \<and>
   (\<exists>w'. CollectBackingStore debug_checks created_world (framebuffer_store GL_BGRA8_EXT 1 1) = Inr (True, w') \<and>
         is_initialized w') \<and>
   (\<exists>w'. Present debug_checks ready_world good_env [a_layer (framebuffer_store GL_BGRA8_EXT 1 1) 800 600]
           = Inr (True, w') \<and> is_initialized w')"
proof (intro conjI)
  have n: "\<not> is_initialized new_world \<and> consistent new_world" "calls new_world = []"
    by (simp_all add: new_world_def consistent_def)
  have g: "MakeCurrent good_env \<and> IsValid (resolved good_env)"
    "GetSupportedTextureFormat (GetDescription (resolved good_env)) = GL_BGRA8_EXT"
    by (simp_all add: good_env_def gles_with_def GetSupportedTextureFormat_def HasExtension_def)
  have b: "\<not> (MakeCurrent (good_env\<lparr>MakeCurrent := False\<rparr>) \<and>
              IsValid (resolved (good_env\<lparr>MakeCurrent := False\<rparr>)))"
    by simp
  show "Initialize debug_checks ready_world good_env = Inl (FML_DCHECK_failed, ready_world)"
    using Initialize_state_machine[where w = ready_world and env = good_env and b = debug_checks, THEN conjunct1, THEN mp, OF ready_world_facts(1)] .
  from Initialize_state_machine[where w = new_world and env = "good_env\<lparr>MakeCurrent := False\<rparr>"
           and b = debug_checks, THEN conjunct2, THEN conjunct1,
         THEN mp, OF n(1)] b
  have f: "Initialize debug_checks new_world (good_env\<lparr>MakeCurrent := False\<rparr>)
             = Inr (False, new_world\<lparr>calls := calls new_world @ [MakeCurrent_called]\<rparr>) \<and>
           (\<forall>env'. MakeCurrent env' \<and> IsValid (resolved env') \<longrightarrow>
               (\<exists>w'. Initialize debug_checks (new_world\<lparr>calls := calls new_world @ [MakeCurrent_called]\<rparr>) env'
                        = Inr (True, w') \<and> is_initialized w'))"
    by simp
  from f show "Initialize debug_checks new_world (good_env\<lparr>MakeCurrent := False\<rparr>)
     = Inr (False, new_world\<lparr>calls := [MakeCurrent_called]\<rparr>)"
    by (simp add: n(2))
  from f[THEN conjunct2, rule_format, OF g(1)]
  show "\<exists>w'. Initialize debug_checks (new_world\<lparr>calls := [MakeCurrent_called]\<rparr>) good_env = Inr (True, w') \<and>
         is_initialized w'"
    by (simp add: n(2))
  from Initialize_state_machine[where w = new_world and env = good_env and b = debug_checks, THEN conjunct2, THEN conjunct1, THEN mp, OF n(1)] g
  show "Initialize debug_checks new_world good_env
     = Inr (True, new_world\<lparr>calls := [MakeCurrent_called], gl_table := Some (resolved good_env),
                   format := GL_BGRA8_EXT, is_initialized := True\<rparr>)"
    by (simp add: n(2))
  note keeps = Initialize_state_machine[where w = ready_world and env = good_env and b = debug_checks, THEN conjunct2, THEN conjunct2, THEN mp,
                      OF ready_world_facts(1)]
  from keeps[THEN conjunct1, rule_format, OF first_creation]
  show "is_initialized created_world" by (rule conjunct1)
  from first_collection obtain w' where
    c: "CollectBackingStore debug_checks created_world (framebuffer_store GL_BGRA8_EXT 1 1) = Inr (True, w')"
    by blast
  from Initialize_state_machine[where w = created_world and env = good_env and b = debug_checks, THEN conjunct2, THEN conjunct2, THEN mp,
              OF created_world_facts(1), THEN conjunct2, THEN conjunct1, rule_format, OF c,
              THEN conjunct1] c
  show "\<exists>w'. CollectBackingStore debug_checks created_world (framebuffer_store GL_BGRA8_EXT 1 1) = Inr (True, w') \<and>
         is_initialized w'"
    by blast
  from first_present obtain w' where
    p: "Present debug_checks ready_world good_env [a_layer (framebuffer_store GL_BGRA8_EXT 1 1) 800 600]
          = Inr (True, w')"
    by blast
  from keeps[THEN conjunct2, THEN conjunct2, rule_format, OF p, THEN conjunct1] p
  show "\<exists>w'. Present debug_checks ready_world good_env [a_layer (framebuffer_store GL_BGRA8_EXT 1 1) 800 600]
           = Inr (True, w') \<and> is_initialized w'"
    by blast
qed

subsection \<open>C6\<close>

text \<open>
  Claim C6. In every build, when no view is attached, \<^verbatim>\<open>Present\<close> returns false and
  leaves the world exactly as it was, so it has neither tried to acquire the context nor
  made any GL call; this is what happens whenever its preconditions hold, and otherwise
  the call either does the same or stops at an assertion, the world untouched.
\<close>

theorem Present_without_view:
  assumes "view env = None"
  shows "(is_initialized w \<and> layers = [layer] \<and>
          layer_type layer = kFlutterLayerContentTypeBackingStore \<and>
          is_framebuffer_store (backing_store layer) \<longrightarrow>
            Present b w env layers = Inr (False, w)) \<and>
         (Present b w env layers = Inr (False, w) \<or>
          Present b w env layers = Inl (FML_DCHECK_failed, w))"
  using assms Present_no_view[OF assms, of b w layers]
        Present_no_view_precondition[of w layer env b]
  by blast

theorem Present_without_view_witness:
  "Present debug_checks ready_world (good_env\<lparr>view := None\<rparr>)
     [a_layer (framebuffer_store GL_BGRA8_EXT 1 1) 800 600] = Inr (False, ready_world) \<and>
   Present NDEBUG ready_world (good_env\<lparr>view := None\<rparr>)
     [a_layer (framebuffer_store GL_BGRA8_EXT 1 1) 800 600] = Inr (False, ready_world)"
  using Present_without_view[where env = "good_env\<lparr>view := None\<rparr>" and w = ready_world and b = debug_checks
             and layers = "[a_layer (framebuffer_store GL_BGRA8_EXT 1 1) 800 600]"
             and layer = "a_layer (framebuffer_store GL_BGRA8_EXT 1 1) 800 600"]
        Present_without_view[where env = "good_env\<lparr>view := None\<rparr>" and w = ready_world and b = NDEBUG
             and layers = "[a_layer (framebuffer_store GL_BGRA8_EXT 1 1) 800 600]"
             and layer = "a_layer (framebuffer_store GL_BGRA8_EXT 1 1) 800 600"]
  by (simp add: ready_world_facts a_layer_def framebuffer_store_def is_framebuffer_store_def)

subsection \<open>C7\<close>

text \<open>
  A request 2147483648 (2^31) wide and 600 high on an initialized compositor:
  \<^verbatim>\<open>CreateBackingStore\<close> returns true, but the width it hands to \<^verbatim>\<open>TexImage2D\<close> is
  the \<^verbatim>\<open>GLsizei\<close> \<^verbatim>\<open>0x80000000\<close>, which is -2147483648; the driver refuses a
  negative width, and the new texture has no storage at level 0.
\<close>

theorem CreateBackingStore_narrows_size:
  "CreateBackingStore debug_checks ready_world good_env (a_config 2147483648 600) blank_store
     = Inr (True, framebuffer_store GL_BGRA8_EXT 1 1, wide_world) \<and>
   GL (TexImage2D GL_TEXTURE_2D 0 GL_RGBA8 0x80000000 600 0 GL_RGBA GL_UNSIGNED_BYTE)
     \<in> set (calls wide_world) \<and>
   sint (0x80000000 :: 32 word) = - 2147483648 \<and>
   images (texture_objects (gpu wide_world) 1) 0 = None"
  by (simp add: wide_creation) (simp add: wide_world_def)

text \<open>
  Claim C7, as amended. In every build, on a consistent compositor that is initialized or
  can be initialized from its surroundings, \<^verbatim>\<open>CreateBackingStore\<close> returns true for
  every request, and then the descriptor's user data is the address of live metadata naming
  a new texture and the framebuffer the descriptor names; the texture is the framebuffer's
  colour attachment, has nearest minification and magnification filters and clamp-to-edge
  wrapping on both axes; the call has asked for storage at level 0 with internal format
  \<^verbatim>\<open>GL_RGBA8\<close>, whatever format was negotiated, at the requested width and height
  narrowed to \<^verbatim>\<open>GLsizei\<close>. When width and height are whole numbers below 2^31 the
  texture has storage at level 0 only, of exactly width by height texels with internal
  format \<^verbatim>\<open>GL_RGBA8\<close>. The descriptor's target is the compositor's format: the one
  fixed earlier if the compositor was initialized, and otherwise the one negotiated during
  this call.
\<close>

theorem CreateBackingStore_texture_storage:
  assumes "consistent w" and "is_initialized w \<or> (MakeCurrent env \<and> IsValid (resolved env))"
  shows "\<exists>store w' fb texture.
      CreateBackingStore b w env config result = Inr (True, store, w') \<and>
      map_of (heap w') (user_data (framebuffer (open_gl store)))
        = Some \<lparr>framebuffer_id = fb, texture_id = texture\<rparr> \<and>
      texture \<in> set (textures (gpu w')) \<and> texture \<notin> set (textures (gpu w)) \<and>
      name (framebuffer (open_gl store)) = fb \<and>
      color_attachment0 (gpu w') fb = texture \<and>
      min_filter (texture_objects (gpu w') texture) = GL_NEAREST \<and>
      mag_filter (texture_objects (gpu w') texture) = GL_NEAREST \<and>
      wrap_s (texture_objects (gpu w') texture) = GL_CLAMP_TO_EDGE \<and>
      wrap_t (texture_objects (gpu w') texture) = GL_CLAMP_TO_EDGE \<and>
      GL (TexImage2D GL_TEXTURE_2D 0 GL_RGBA8 (to_int (width (config_size config)))
            (to_int (height (config_size config))) 0 GL_RGBA GL_UNSIGNED_BYTE)
        \<in> set (drop (length (calls w)) (calls w')) \<and>
      (\<forall>m n. width (config_size config) = real m \<and> height (config_size config) = real n \<and>
             m < 2 ^ 31 \<and> n < 2 ^ 31 \<longrightarrow>
         images (texture_objects (gpu w') texture) =
           [0 \<mapsto> \<lparr>internalformat = GL_RGBA8, image_width = m, image_height = n, border = 0,
                   pixel_format = GL_RGBA, pixel_type = GL_UNSIGNED_BYTE\<rparr>]) \<and>
      target (framebuffer (open_gl store)) = format w' \<and>
      format w' = (if is_initialized w then format w
                   else GetSupportedTextureFormat (GetDescription (resolved env)))"
proof (cases "is_initialized w")
  case True
  with assms(1) obtain table where "gl_table w = Some table"
    by (auto simp: consistent_def)
  from allocate_returns[OF this] obtain store w' where
    a: "allocate w config result = Inr (True, store, w')" by blast
  have "CreateBackingStore b w env config result = Inr (True, store, w')"
    using True a by (simp add: CreateBackingStore_initialized)
  with allocate_storage[OF a] True show ?thesis by auto
next
  case False
  with assms(2) have good: "MakeCurrent env" "IsValid (resolved env)" by simp_all
  define wi where "wi = w\<lparr>calls := calls w @ [MakeCurrent_called], gl_table := Some (resolved env),
       format := GetSupportedTextureFormat (GetDescription (resolved env)),
       is_initialized := True\<rparr>"
  have i: "Initialize b w env = Inr (True, wi)"
    using False good by (simp add: Initialize_success wi_def)
  have "gl_table wi = Some (resolved env)" by (simp add: wi_def)
  from allocate_returns[OF this] obtain store w' where
    a: "allocate wi config result = Inr (True, store, w')" by blast
  have c: "CreateBackingStore b w env config result = Inr (True, store, w')"
    using CreateBackingStore_initializes[OF False i] a by simp
  have calls: "drop (length (calls w)) (calls w')
                 = MakeCurrent_called # drop (length (calls wi)) (calls w')"
    using allocate_effect(14)[OF a] by (simp add: wi_def)
  from allocate_storage[OF a] obtain fb texture where f:
      "map_of (heap w') (user_data (framebuffer (open_gl store)))
        = Some \<lparr>framebuffer_id = fb, texture_id = texture\<rparr>"
      "texture \<in> set (textures (gpu w'))" "texture \<notin> set (textures (gpu wi))"
      "name (framebuffer (open_gl store)) = fb"
      "color_attachment0 (gpu w') fb = texture"
      "min_filter (texture_objects (gpu w') texture) = GL_NEAREST"
      "mag_filter (texture_objects (gpu w') texture) = GL_NEAREST"
      "wrap_s (texture_objects (gpu w') texture) = GL_CLAMP_TO_EDGE"
      "wrap_t (texture_objects (gpu w') texture) = GL_CLAMP_TO_EDGE"
      "GL (TexImage2D GL_TEXTURE_2D 0 GL_RGBA8 (to_int (width (config_size config)))
            (to_int (height (config_size config))) 0 GL_RGBA GL_UNSIGNED_BYTE)
        \<in> set (drop (length (calls wi)) (calls w'))"
      "\<forall>m n. width (config_size config) = real m \<and> height (config_size config) = real n \<and>
             m < 2 ^ 31 \<and> n < 2 ^ 31 \<longrightarrow>
         images (texture_objects (gpu w') texture) =
           [0 \<mapsto> \<lparr>internalformat = GL_RGBA8, image_width = m, image_height = n, border = 0,
                   pixel_format = GL_RGBA, pixel_type = GL_UNSIGNED_BYTE\<rparr>]"
      "target (framebuffer (open_gl store)) = format w'" "format w' = format wi"
    by (elim exE conjE) (rule that)
  have t: "texture \<notin> set (textures (gpu w))" using f(3) by (simp add: wi_def)
  have g: "GL (TexImage2D GL_TEXTURE_2D 0 GL_RGBA8 (to_int (width (config_size config)))
            (to_int (height (config_size config))) 0 GL_RGBA GL_UNSIGNED_BYTE)
        \<in> set (drop (length (calls w)) (calls w'))"
    using f(10) unfolding calls by simp
  have fm: "format w' = (if is_initialized w then format w
                   else GetSupportedTextureFormat (GetDescription (resolved env)))"
    using f(13) False by (simp add: wi_def)
  from c f(1,2) t f(4-9) g f(11,12) fm show ?thesis
    by (intro exI conjI)
qed

theorem CreateBackingStore_texture_storage_witness:
  "\<exists>store w' fb texture.
     CreateBackingStore debug_checks ready_world good_env (a_config 800 600) blank_store
       = Inr (True, store, w') \<and>
     map_of (heap w') (user_data (framebuffer (open_gl store)))
       = Some \<lparr>framebuffer_id = fb, texture_id = texture\<rparr> \<and>
     texture \<in> set (textures (gpu w')) \<and>
     color_attachment0 (gpu w') fb = texture \<and>
     min_filter (texture_objects (gpu w') texture) = GL_NEAREST \<and>
     mag_filter (texture_objects (gpu w') texture) = GL_NEAREST \<and>
     wrap_s (texture_objects (gpu w') texture) = GL_CLAMP_TO_EDGE \<and>
     wrap_t (texture_objects (gpu w') texture) = GL_CLAMP_TO_EDGE \<and>
     images (texture_objects (gpu w') texture) =
       [0 \<mapsto> \<lparr>internalformat = GL_RGBA8, image_width = 800, image_height = 600,
               border = 0, pixel_format = GL_RGBA, pixel_type = GL_UNSIGNED_BYTE\<rparr>] \<and>
     target (framebuffer (open_gl store)) = GL_BGRA8_EXT"
proof -
  have good: "is_initialized ready_world \<or>
              (MakeCurrent good_env \<and> IsValid (resolved good_env))"
    by (simp add: ready_world_facts)
  from CreateBackingStore_texture_storage[OF ready_world_facts(2) good, where b = debug_checks
            and config = "a_config 800 600" and result = blank_store]
  obtain store w' fb texture where f:
      "CreateBackingStore debug_checks ready_world good_env (a_config 800 600) blank_store
         = Inr (True, store, w')"
      "map_of (heap w') (user_data (framebuffer (open_gl store)))
        = Some \<lparr>framebuffer_id = fb, texture_id = texture\<rparr>"
      "texture \<in> set (textures (gpu w'))"
      "color_attachment0 (gpu w') fb = texture"
      "min_filter (texture_objects (gpu w') texture) = GL_NEAREST"
      "mag_filter (texture_objects (gpu w') texture) = GL_NEAREST"
      "wrap_s (texture_objects (gpu w') texture) = GL_CLAMP_TO_EDGE"
      "wrap_t (texture_objects (gpu w') texture) = GL_CLAMP_TO_EDGE"
      "\<forall>m n. width (config_size (a_config 800 600)) = real m \<and>
             height (config_size (a_config 800 600)) = real n \<and>
             m < 2 ^ 31 \<and> n < 2 ^ 31 \<longrightarrow>
         images (texture_objects (gpu w') texture) =
           [0 \<mapsto> \<lparr>internalformat = GL_RGBA8, image_width = m, image_height = n, border = 0,
                   pixel_format = GL_RGBA, pixel_type = GL_UNSIGNED_BYTE\<rparr>]"
      "target (framebuffer (open_gl store)) = format w'"
      "format w' = (if is_initialized ready_world then format ready_world
                   else GetSupportedTextureFormat (GetDescription (resolved good_env)))"
    by (elim exE conjE) (rule that)
  have "width (config_size (a_config 800 600)) = real 800 \<and>
        height (config_size (a_config 800 600)) = real 600 \<and>
        (800 :: nat) < 2 ^ 31 \<and> (600 :: nat) < 2 ^ 31"
    by (simp add: a_config_def)
  with f(9) have i: "images (texture_objects (gpu w') texture) =
       [0 \<mapsto> \<lparr>internalformat = GL_RGBA8, image_width = 800, image_height = 600,
               border = 0, pixel_format = GL_RGBA, pixel_type = GL_UNSIGNED_BYTE\<rparr>]"
    by blast
  have t: "target (framebuffer (open_gl store)) = GL_BGRA8_EXT"
    using f(10,11) by (simp add: ready_world_facts)
  from f(1-8) i t show ?thesis
    by (intro exI conjI)
qed

subsection \<open>C8\<close>




subsection \<open>C9\<close>

text \<open>
  The first \<^verbatim>\<open>CreateBackingStore\<close> call on an initialized compositor with nothing
  bound returns true and leaves framebuffer 1, which it has just made, bound for reading
  and for drawing: the binding state after the call is not the one before it.
\<close>

theorem CreateBackingStore_leaves_framebuffer_bound:
  "CreateBackingStore debug_checks ready_world good_env (a_config 800 600) blank_store
     = Inr (True, framebuffer_store GL_BGRA8_EXT 1 1, created_world) \<and>
   is_initialized ready_world \<and>
   draw_framebuffer_binding (gpu ready_world) = 0 \<and>
   draw_framebuffer_binding (gpu created_world) = 1 \<and>
   read_framebuffer_binding (gpu ready_world) = 0 \<and>
   read_framebuffer_binding (gpu created_world) = 1"
  by (simp add: first_creation) (simp add: example_defs created_world_def)

text \<open>
  Claim C9, as amended. In every build, a \<^verbatim>\<open>CreateBackingStore\<close> call that returns
  true on an initialized compositor adds one new texture and one new framebuffer to the
  live GPU objects and one metadata object to the heap, leaves the compositor's fields and
  every other texture and framebuffer object as they were, and does change the GL binding
  state: the 2D texture binding is left at 0, and the read and draw framebuffer bindings
  are left at the new framebuffer.
\<close>

theorem CreateBackingStore_side_effects:
  assumes "is_initialized w"
    and "CreateBackingStore b w env config result = Inr (True, store, w')"
  shows "\<exists>fb texture address.
      textures (gpu w') = textures (gpu w) @ [texture] \<and> texture \<notin> set (textures (gpu w)) \<and>
      framebuffers (gpu w') = framebuffers (gpu w) @ [fb] \<and> fb \<notin> set (framebuffers (gpu w)) \<and>
      heap w' = heap w @ [(address, \<lparr>framebuffer_id = fb, texture_id = texture\<rparr>)] \<and>
      address \<notin> fst ` set (heap w) \<and>
      is_initialized w' \<and> gl_table w' = gl_table w \<and> format w' = format w \<and>
      (\<forall>n. n \<noteq> texture \<longrightarrow> texture_objects (gpu w') n = texture_objects (gpu w) n) \<and>
      (\<forall>n. n \<noteq> fb \<longrightarrow> color_attachment0 (gpu w') n = color_attachment0 (gpu w) n) \<and>
      texture_binding_2d (gpu w') = 0 \<and>
      read_framebuffer_binding (gpu w') = fb \<and>
      draw_framebuffer_binding (gpu w') = fb \<and> fb \<noteq> 0"
proof -
  from assms have a: "allocate w config result = Inr (True, store, w')"
    by (simp add: CreateBackingStore_initialized)
  show ?thesis
    using allocate_effect(3-13)[OF a] assms(1)
      unused_name_fresh[of "textures (gpu w)"] unused_name_fresh[of "framebuffers (gpu w)"]
      unused_address[of "heap w"] unused_name_nonzero[of "framebuffers (gpu w)"]
    by simp
qed

theorem CreateBackingStore_side_effects_witness:
  "\<exists>fb texture address.
      textures (gpu created_world) = [texture] \<and>
      framebuffers (gpu created_world) = [fb] \<and>
      heap created_world = [(address, \<lparr>framebuffer_id = fb, texture_id = texture\<rparr>)] \<and>
      is_initialized created_world \<and> format created_world = GL_BGRA8_EXT \<and>
      texture_objects (gpu created_world) (Suc texture) = texture_objects (gpu ready_world) (Suc texture) \<and>
      color_attachment0 (gpu created_world) (Suc fb) = color_attachment0 (gpu ready_world) (Suc fb) \<and>
      texture_binding_2d (gpu created_world) = 0 \<and>
      read_framebuffer_binding (gpu created_world) = fb \<and>
      draw_framebuffer_binding (gpu created_world) = fb \<and> fb \<noteq> 0"
proof -
  from CreateBackingStore_side_effects[OF ready_world_facts(1) first_creation[of debug_checks]] obtain fb texture address where f:
    "textures (gpu created_world) = textures (gpu ready_world) @ [texture]"
    "framebuffers (gpu created_world) = framebuffers (gpu ready_world) @ [fb]"
    "heap created_world = heap ready_world @ [(address, \<lparr>framebuffer_id = fb, texture_id = texture\<rparr>)]"
    "is_initialized created_world" "format created_world = format ready_world"
    "\<forall>n. n \<noteq> texture \<longrightarrow> texture_objects (gpu created_world) n = texture_objects (gpu ready_world) n"
    "\<forall>n. n \<noteq> fb \<longrightarrow> color_attachment0 (gpu created_world) n = color_attachment0 (gpu ready_world) n"
    "texture_binding_2d (gpu created_world) = 0"
    "read_framebuffer_binding (gpu created_world) = fb"
    "draw_framebuffer_binding (gpu created_world) = fb" "fb \<noteq> 0"
    by (elim exE conjE) (rule that)
  have "texture_objects (gpu created_world) (Suc texture) = texture_objects (gpu ready_world) (Suc texture)"
    using f(6) by simp
  moreover have "color_attachment0 (gpu created_world) (Suc fb) = color_attachment0 (gpu ready_world) (Suc fb)"
    using f(7) by simp
  ultimately show ?thesis
    using f(1-5,8-11) by (simp add: ready_world_facts)
qed

subsection \<open>C10\<close>

text \<open>
  Claim C10. In every build, on an initialized compositor \<^verbatim>\<open>CreateBackingStore\<close>
  returns true for every request, \<^verbatim>\<open>CollectBackingStore\<close> returns true for every
  framebuffer descriptor whose metadata is alive, and \<^verbatim>\<open>CollectBackingStore\<close> never
  returns false at all.
\<close>

theorem no_failure_after_initialization:
  assumes "is_initialized w" and "consistent w"
  shows "(\<exists>created w'. CreateBackingStore b w env config result = Inr (True, created, w')) \<and>
         (is_framebuffer_store store \<and>
          user_data (framebuffer (open_gl store)) \<in> fst ` set (heap w) \<longrightarrow>
            (\<exists>w'. CollectBackingStore b w store = Inr (True, w'))) \<and>
         (\<forall>w'. CollectBackingStore b w store \<noteq> Inr (False, w'))"
proof -
  from assms obtain table where t: "gl_table w = Some table"
    by (auto simp: consistent_def)
  have "\<exists>created w'. CreateBackingStore b w env config result = Inr (True, created, w')"
    using allocate_returns[OF t] assms(1) by (simp add: CreateBackingStore_initialized)
  moreover have "\<exists>w'. CollectBackingStore b w store = Inr (True, w')"
    if "is_framebuffer_store store" "user_data (framebuffer (open_gl store)) \<in> fst ` set (heap w)"
  proof -
    from that(2) obtain metadata
      where "map_of (heap w) (user_data (framebuffer (open_gl store))) = Some metadata"
      by (metis domD dom_map_of_conv_image_fst)
    from CollectBackingStore_returns[OF assms(1) t that(1) this] show ?thesis .
  qed
  moreover have "\<forall>w'. CollectBackingStore b w store \<noteq> Inr (False, w')"
    using CollectBackingStore_effect(1) by blast
  ultimately show ?thesis by blast
qed

theorem no_failure_after_initialization_witness:
  "(\<exists>created w'. CreateBackingStore debug_checks ready_world good_env (a_config 1 1) blank_store
                    = Inr (True, created, w')) \<and>
   (\<exists>w'. CollectBackingStore debug_checks created_world (framebuffer_store GL_BGRA8_EXT 1 1) = Inr (True, w'))"
  using no_failure_after_initialization[OF ready_world_facts(1,2), where b = debug_checks and env = good_env
              and config = "a_config 1 1" and result = blank_store and store = blank_store]
        no_failure_after_initialization[OF created_world_facts(1,2), where b = debug_checks and env = good_env
              and config = "a_config 1 1" and result = blank_store and store =
              "framebuffer_store GL_BGRA8_EXT 1 1"]
  by (simp add: created_world_facts framebuffer_store_def is_framebuffer_store_def)

end
